theory Spec2Isabelle
  imports Main
begin

unbundle bit_operations_syntax

section \<open>vcf2seq: fixed-length sequence windows around VCF variants\<close>

text \<open>
  A shallow embedding of \<^verbatim>\<open>src/vcf2seq/vcf2seq.py\<close>. Python's unbounded integers are
  \<open>int\<close>, strings are \<open>string\<close>, an uncaught exception or a \<^verbatim>\<open>sys.exit\<close> is the left
  summand of \<open>error + 'a\<close>, and the three lists that \<^verbatim>\<open>compute\<close> appends to are the fields
  of the record \<open>acc\<close>, passed through the loops.
\<close>

subsection \<open>Python built-ins used by the program\<close>

abbreviation len :: "'a list \<Rightarrow> int" where
  "len xs \<equiv> int (length xs)"

abbreviation NL :: char where
  "NL \<equiv> CHR 0x0A"

abbreviation TAB :: char where
  "TAB \<equiv> CHR 0x09"

text \<open>\<^verbatim>\<open>s.rstrip('\n')\<close>: every trailing newline is removed.\<close>

definition rstrip_nl :: "string \<Rightarrow> string" where
  "rstrip_nl s = rev (dropWhile (\<lambda>c. c = NL) (rev s))"

text \<open>\<^verbatim>\<open>s.startswith('#')\<close>.\<close>

fun startswith_hash :: "string \<Rightarrow> bool" where
  "startswith_hash [] = False"
| "startswith_hash (c # cs) = (c = CHR ''#'')"

text \<open>\<^verbatim>\<open>s.split(sep)\<close> for a one-character separator: \<open>n\<close> separators give \<open>n + 1\<close> parts.\<close>

fun split :: "char \<Rightarrow> string \<Rightarrow> string list" where
  "split sep [] = [[]]"
| "split sep (c # cs) =
     (if c = sep then [] # split sep cs
      else (case split sep cs of
              [] \<Rightarrow> [[c]]
            | p # ps \<Rightarrow> (c # p) # ps))"

text \<open>\<^verbatim>\<open>sep.join(xs)\<close>.\<close>

fun join :: "string \<Rightarrow> string list \<Rightarrow> string" where
  "join sep [] = []"
| "join sep [x] = x"
| "join sep (x # y # ys) = x @ sep @ join sep (y # ys)"

text \<open>
  A \<open>char\<close> stands for a code point below 256, so a \<open>string\<close> is a Python string of such
  code points and \<open>length\<close> is \<^verbatim>\<open>len\<close>.
\<close>

text \<open>
  \<^verbatim>\<open>s.isdigit()\<close>: not empty, and every character is a digit. Below 256 the digits are
  \<^verbatim>\<open>0\<close> to \<^verbatim>\<open>9\<close> and the superscripts two, three and one.
\<close>

definition is_decimal :: "char \<Rightarrow> bool" where
  "is_decimal c = (c \<in> set ''0123456789'')"

definition is_digit :: "char \<Rightarrow> bool" where
  "is_digit c = (is_decimal c \<or> c \<in> set [CHR 0xB2, CHR 0xB3, CHR 0xB9])"

definition isdigit :: "string \<Rightarrow> bool" where
  "isdigit s = (s \<noteq> [] \<and> list_all is_digit s)"

text \<open>
  \<^verbatim>\<open>int(s)\<close>. The two spaces above 127, next line and no-break space, are first turned
  into a blank. Then the white space of C (tab, line feed, vertical tab, form feed,
  carriage return, blank) is dropped at both ends, one sign may come first, then decimal
  digits, where single underscores may stand between two digits, and at most 4300 digits.
  Anything else raises \<^verbatim>\<open>ValueError\<close> (\<open>None\<close>).
\<close>

definition to_ascii_space :: "char \<Rightarrow> char" where
  "to_ascii_space c = (if c = CHR 0x85 \<or> c = CHR 0xA0 then CHR '' '' else c)"

definition is_space :: "char \<Rightarrow> bool" where
  "is_space c = (c \<in> set [CHR 0x09, CHR 0x0A, CHR 0x0B, CHR 0x0C, CHR 0x0D, CHR '' ''])"

definition strip :: "string \<Rightarrow> string" where
  "strip s = rev (dropWhile is_space (rev (dropWhile is_space s)))"

definition digit_val :: "char \<Rightarrow> int" where
  "digit_val c = int (of_char c) - 48"

fun digits_ok :: "string \<Rightarrow> bool" where
  "digits_ok [] = False"
| "digits_ok [c] = is_decimal c"
| "digits_ok (c # d # cs) =
     (is_decimal c \<and> (if d = CHR ''_'' then digits_ok cs else digits_ok (d # cs)))"

definition digits_value :: "string \<Rightarrow> int" where
  "digits_value s = foldl (\<lambda>n c. 10 * n + digit_val c) 0 (filter is_decimal s)"

definition max_str_digits :: nat where
  "max_str_digits = 4300"

definition unsigned_int :: "string \<Rightarrow> int option" where
  "unsigned_int s =
     (if digits_ok s \<and> length (filter is_decimal s) \<le> max_str_digits
      then Some (digits_value s) else None)"

definition py_int :: "string \<Rightarrow> int option" where
  "py_int s =
     (case strip (map to_ascii_space s) of
        [] \<Rightarrow> None
      | c # cs \<Rightarrow>
          if c = CHR ''-'' then map_option uminus (unsigned_int cs)
          else if c = CHR ''+'' then unsigned_int cs
          else unsigned_int (c # cs))"

subsection \<open>Errors, warnings and data\<close>

text \<open>
  Every way the run can abort: the four \<^verbatim>\<open>sys.exit\<close> messages of the program, with the
  values they interpolate, and the exceptions that Python raises and the program does not
  catch.
\<close>

datatype error =
    ErrorVcfFormat string
  | ErrorChr string
  | ErrorColumns int
  | ErrorBase string int
  | ValueError
  | IndexError
  | KeyError string

text \<open>The four warning messages of \<^verbatim>\<open>compute\<close>, with the values they interpolate.\<close>

datatype warning =
    LargeAlteration string string string string
  | RefMismatch int string int string string
  | AltTooLong int int int
  | SizeNotCorrect int int int

text \<open>The parsed command line; \<open>vcf\<close> holds the lines of the input file.\<close>

record args =
  vcf :: "string list"
  vcf_name :: string
  genome :: string
  size_arg :: int
  type_arg :: string
  blank :: string
  add_columns :: "string list option"
  output_arg :: "string option"

text \<open>
  The indexed genome \<^verbatim>\<open>chr_dict\<close> is a parameter: \<^verbatim>\<open>chr_dict[chr]\<close> fails for an unknown
  chromosome, and \<^verbatim>\<open>chr_dict[chr][start:end]\<close> is a function of the two coordinates.
\<close>

type_synonym fasta = "string \<Rightarrow> (int \<Rightarrow> int \<Rightarrow> string) option"

record acc =
  res_ref :: "string list"
  res_alt :: "string list"
  warnings :: "warning list"

text \<open>\<^verbatim>\<open>xs[i]\<close> on a Python list: a negative index counts from the end.\<close>

definition py_get :: "'a list \<Rightarrow> int \<Rightarrow> error + 'a" where
  "py_get xs i =
     (if 0 \<le> i \<and> i < len xs then Inr (xs ! nat i)
      else if i < 0 \<and> - len xs \<le> i then Inr (xs ! nat (len xs + i))
      else Inl IndexError)"

subsection \<open>\<^verbatim>\<open>vcf_ctrl\<close>\<close>

fun vcf_ctrl_rows :: "fasta \<Rightarrow> string list \<Rightarrow> error + unit" where
  "vcf_ctrl_rows chr_dict [] = Inr ()"
| "vcf_ctrl_rows chr_dict (row # rows) =
     (if startswith_hash row then vcf_ctrl_rows chr_dict rows
      else (case split TAB (rstrip_nl row) of
              chr # pos # ident # ref # alt # rest \<Rightarrow>
                if \<not> isdigit pos then Inl (ErrorVcfFormat pos)
                else if chr_dict chr = None then Inl (ErrorChr chr)
                else Inr ()
            | _ \<Rightarrow> Inl ValueError))"

definition vcf_ctrl :: "args \<Rightarrow> fasta \<Rightarrow> error + unit" where
  "vcf_ctrl a chr_dict = vcf_ctrl_rows chr_dict (vcf a)"

subsection \<open>\<^verbatim>\<open>compute\<close>: the window of one allele pair\<close>

text \<open>The parity corrections, lines 116 to 125.\<close>

definition corr_ref :: "args \<Rightarrow> string \<Rightarrow> int" where
  "corr_ref a ref =
     (if size_arg a AND 1 = 0
      then (if len ref AND 1 \<noteq> 0 \<and> ref \<noteq> blank a then 1 else 0)
      else (if len ref AND 1 = 0 then 1 else 0) + (if ref = blank a then 1 else 0))"

definition corr_alt :: "args \<Rightarrow> string \<Rightarrow> int" where
  "corr_alt a alt =
     (if size_arg a AND 1 = 0
      then (if len alt AND 1 \<noteq> 0 \<and> alt \<noteq> blank a then 1 else 0)
      else (if len alt AND 1 = 0 then 1 else 0) + (if alt = blank a then 1 else 0))"

text \<open>The REF window, lines 128 to 134; \<open>pos\<close> is \<^verbatim>\<open>int(position)\<close>.\<close>

definition l_ref2 :: "args \<Rightarrow> string \<Rightarrow> int" where
  "l_ref2 a ref = (if ref = blank a then 0 else len ref)"

definition l_ref1 :: "args \<Rightarrow> string \<Rightarrow> int" where
  "l_ref1 a ref = (size_arg a - l_ref2 a ref) div 2"

definition l_ref3 :: "args \<Rightarrow> string \<Rightarrow> int" where
  "l_ref3 a ref = l_ref1 a ref + corr_ref a ref"

definition ps_ref2 :: "int \<Rightarrow> int" where
  "ps_ref2 pos = pos - 1"

definition ps_ref1 :: "args \<Rightarrow> int \<Rightarrow> string \<Rightarrow> int" where
  "ps_ref1 a pos ref = ps_ref2 pos - l_ref1 a ref"

definition pe_ref3 :: "args \<Rightarrow> int \<Rightarrow> string \<Rightarrow> int" where
  "pe_ref3 a pos ref = ps_ref2 pos + l_ref2 a ref + l_ref3 a ref"

definition ref_seq :: "args \<Rightarrow> (int \<Rightarrow> int \<Rightarrow> string) \<Rightarrow> int \<Rightarrow> string \<Rightarrow> string" where
  "ref_seq a chrom pos ref = chrom (ps_ref1 a pos ref) (pe_ref3 a pos ref)"

text \<open>
  The ALT window, lines 137 to 147. The source also computes \<^verbatim>\<open>ps_alt2\<close> and never reads
  it; it has no effect and is left out.
\<close>

definition l_alt2 :: "args \<Rightarrow> string \<Rightarrow> int" where
  "l_alt2 a alt = (if alt = blank a then 0 else len alt)"

definition l_alt1 :: "args \<Rightarrow> string \<Rightarrow> int" where
  "l_alt1 a alt = (size_arg a - l_alt2 a alt) div 2"

definition l_alt3 :: "args \<Rightarrow> string \<Rightarrow> int" where
  "l_alt3 a alt = (size_arg a - l_alt2 a alt) div 2 + corr_alt a alt"

definition ps_alt1 :: "args \<Rightarrow> int \<Rightarrow> string \<Rightarrow> int" where
  "ps_alt1 a pos alt = ps_ref2 pos - l_alt1 a alt"

definition ps_alt3 :: "args \<Rightarrow> int \<Rightarrow> string \<Rightarrow> int" where
  "ps_alt3 a pos ref = ps_ref2 pos + l_ref2 a ref"

definition pe_alt3 :: "args \<Rightarrow> int \<Rightarrow> string \<Rightarrow> string \<Rightarrow> int" where
  "pe_alt3 a pos ref alt = ps_alt3 a pos ref + l_alt3 a alt"

definition seq_alt1 :: "args \<Rightarrow> (int \<Rightarrow> int \<Rightarrow> string) \<Rightarrow> int \<Rightarrow> string \<Rightarrow> string" where
  "seq_alt1 a chrom pos alt = chrom (ps_alt1 a pos alt) (ps_ref2 pos)"

definition alt_text :: "args \<Rightarrow> string \<Rightarrow> string" where
  "alt_text a alt = (if alt \<noteq> blank a then alt else [])"

definition seq_alt3 ::
  "args \<Rightarrow> (int \<Rightarrow> int \<Rightarrow> string) \<Rightarrow> int \<Rightarrow> string \<Rightarrow> string \<Rightarrow> string" where
  "seq_alt3 a chrom pos ref alt = chrom (ps_alt3 a pos ref) (pe_alt3 a pos ref alt)"

definition alt_seq ::
  "args \<Rightarrow> (int \<Rightarrow> int \<Rightarrow> string) \<Rightarrow> int \<Rightarrow> string \<Rightarrow> string \<Rightarrow> string" where
  "alt_seq a chrom pos ref alt =
     seq_alt1 a chrom pos alt @ alt_text a alt @ seq_alt3 a chrom pos ref alt"

text \<open>The genome bases where REF should be, line 150.\<close>

definition seq_ref2 :: "args \<Rightarrow> (int \<Rightarrow> int \<Rightarrow> string) \<Rightarrow> int \<Rightarrow> string \<Rightarrow> string" where
  "seq_ref2 a chrom pos ref = chrom (ps_ref2 pos) (ps_ref2 pos + l_ref2 a ref)"

subsection \<open>\<^verbatim>\<open>compute\<close>: one allele pair\<close>

definition NUC :: "args \<Rightarrow> string list" where
  "NUC a = [''A'', ''T'', ''C'', ''G'', blank a]"

text \<open>
  Lines 91 to 96: the tuple \<^verbatim>\<open>(ref[0], alt[0])\<close> is built first, so an empty allele raises
  \<^verbatim>\<open>IndexError\<close> before any base is looked at.
\<close>

definition check_bases :: "args \<Rightarrow> int \<Rightarrow> string \<Rightarrow> string \<Rightarrow> error + unit" where
  "check_bases a num_row ref alt =
     (case ref of
        [] \<Rightarrow> Inl IndexError
      | r0 # _ \<Rightarrow>
          (case alt of
             [] \<Rightarrow> Inl IndexError
           | a0 # _ \<Rightarrow>
               if [r0] \<notin> set (NUC a) then Inl (ErrorBase [r0] num_row)
               else if [a0] \<notin> set (NUC a) then Inl (ErrorBase [a0] num_row)
               else Inr ()))"

text \<open>Line 158: \<^verbatim>\<open>' '.join([fields[num-1] for num in cols_id])\<close>.\<close>

fun pick_columns :: "string list \<Rightarrow> int list \<Rightarrow> error + string list" where
  "pick_columns fields' [] = Inr []"
| "pick_columns fields' (num # nums) =
     (case py_get fields' (num - 1) of
        Inl e \<Rightarrow> Inl e
      | Inr x \<Rightarrow>
          (case pick_columns fields' nums of
             Inl e \<Rightarrow> Inl e
           | Inr xs \<Rightarrow> Inr (x # xs)))"

definition col_txt :: "string list \<Rightarrow> int list \<Rightarrow> error + string" where
  "col_txt fields' cols_id =
     (case pick_columns fields' cols_id of
        Inl e \<Rightarrow> Inl e
      | Inr xs \<Rightarrow> Inr (join '' '' xs))"

definition header :: "string \<Rightarrow> string \<Rightarrow> string \<Rightarrow> string \<Rightarrow> string" where
  "header chr position ref alt = ''>'' @ chr @ ''_'' @ position @ ''_'' @ ref @ ''_'' @ alt"

definition ref_record :: "string \<Rightarrow> string \<Rightarrow> string \<Rightarrow> string" where
  "ref_record hdr ct rs = hdr @ ''_ref '' @ ct @ [NL] @ rs"

definition alt_record :: "string \<Rightarrow> string \<Rightarrow> string \<Rightarrow> string" where
  "alt_record hdr ct as = hdr @ ''_alt '' @ ct @ [NL] @ as"

text \<open>Lines 86 and 87, and lines 150 to 156: the two warnings that do not reject the pair.\<close>

definition large_warning :: "args \<Rightarrow> string \<Rightarrow> string \<Rightarrow> string \<Rightarrow> string \<Rightarrow> warning list" where
  "large_warning a chr position ref alt =
     (if max (len ref) (len alt) > size_arg a
      then [LargeAlteration chr position ref alt] else [])"

definition mismatch_warning ::
  "args \<Rightarrow> (int \<Rightarrow> int \<Rightarrow> string) \<Rightarrow> int \<Rightarrow> string \<Rightarrow> int \<Rightarrow> string \<Rightarrow> warning list" where
  "mismatch_warning a chrom num_row chr pos ref =
     (if l_ref2 a ref \<noteq> 0 \<and> ref \<noteq> seq_ref2 a chrom pos ref
      then [RefMismatch num_row chr (ps_ref2 pos + 1) ref (seq_ref2 a chrom pos ref)]
      else [])"

text \<open>
  The body of the inner loop, lines 83 to 165, as the outcome of one allele pair: the
  warnings it appends, in order, and the pair of records it appends to \<^verbatim>\<open>res_ref\<close> and
  \<^verbatim>\<open>res_alt\<close> when the pair is accepted. The body only appends to the three lists and never
  reads them. The steps that can abort come in the order of the source: the first bases
  (line 92), \<^verbatim>\<open>int(position)\<close> (line 131), \<^verbatim>\<open>chr_dict[chr]\<close> (line 134), the added columns
  (line 158).
\<close>

definition alt_outcome ::
  "args \<Rightarrow> fasta \<Rightarrow> int list \<Rightarrow> int \<Rightarrow> string list \<Rightarrow> string \<Rightarrow> string \<Rightarrow> string \<Rightarrow> string
     \<Rightarrow> error + (warning list \<times> (string \<times> string) option)" where
  "alt_outcome a chr_dict cols_id num_row fields' chr position ref alt =
     (case check_bases a num_row ref alt of
        Inl e \<Rightarrow> Inl e
      | Inr _ \<Rightarrow>
     (case py_int position of
        None \<Rightarrow> Inl ValueError
      | Some pos \<Rightarrow>
     (case chr_dict chr of
        None \<Rightarrow> Inl (KeyError chr)
      | Some chrom \<Rightarrow>
     (let ws = large_warning a chr position ref alt
                 @ mismatch_warning a chrom num_row chr pos ref;
          rs = ref_seq a chrom pos ref;
          as = alt_seq a chrom pos ref alt
      in case col_txt fields' cols_id of
           Inl e \<Rightarrow> Inl e
         | Inr ct \<Rightarrow>
             if len rs = size_arg a \<and> size_arg a = len as
             then Inr (ws, Some (ref_record (header chr position ref alt) ct rs,
                                 alt_record (header chr position ref alt) ct as))
             else if len as > size_arg a
             then Inr (ws @ [AltTooLong (len as) (size_arg a) num_row], None)
             else Inr (ws @ [SizeNotCorrect num_row (len as) (size_arg a)], None)))))"

definition append_outcome :: "acc \<Rightarrow> warning list \<times> (string \<times> string) option \<Rightarrow> acc" where
  "append_outcome st out =
     (case out of
        (ws, None) \<Rightarrow> st\<lparr>warnings := warnings st @ ws\<rparr>
      | (ws, Some (r, x)) \<Rightarrow>
          st\<lparr>res_ref := res_ref st @ [r], res_alt := res_alt st @ [x],
             warnings := warnings st @ ws\<rparr>)"

definition compute_alt ::
  "args \<Rightarrow> fasta \<Rightarrow> int list \<Rightarrow> int \<Rightarrow> string list \<Rightarrow> string \<Rightarrow> string \<Rightarrow> string \<Rightarrow> string
     \<Rightarrow> acc \<Rightarrow> error + acc" where
  "compute_alt a chr_dict cols_id num_row fields' chr position ref alt st =
     (case alt_outcome a chr_dict cols_id num_row fields' chr position ref alt of
        Inl e \<Rightarrow> Inl e
      | Inr out \<Rightarrow> Inr (append_outcome st out))"

subsection \<open>\<^verbatim>\<open>compute\<close>: the loops\<close>

text \<open>The loop over the comma-separated alternate alleles of one row, line 81.\<close>

fun alts_loop ::
  "args \<Rightarrow> fasta \<Rightarrow> int list \<Rightarrow> int \<Rightarrow> string list \<Rightarrow> string \<Rightarrow> string \<Rightarrow> string
     \<Rightarrow> string list \<Rightarrow> acc \<Rightarrow> error + acc" where
  "alts_loop a chr_dict cols_id num_row fields' chr position ref [] st = Inr st"
| "alts_loop a chr_dict cols_id num_row fields' chr position ref (alt # alts) st =
     (case compute_alt a chr_dict cols_id num_row fields' chr position ref alt st of
        Inl e \<Rightarrow> Inl e
      | Inr st' \<Rightarrow> alts_loop a chr_dict cols_id num_row fields' chr position ref alts st')"

text \<open>\<^verbatim>\<open>args.add_columns\<close> as a condition: \<^verbatim>\<open>None\<close> and the empty list are false.\<close>

definition add_columns_given :: "args \<Rightarrow> bool" where
  "add_columns_given a = (case add_columns a of None \<Rightarrow> False | Some cs \<Rightarrow> cs \<noteq> [])"

text \<open>\<^verbatim>\<open>max(xs)\<close> raises \<^verbatim>\<open>ValueError\<close> on an empty list.\<close>

fun py_max :: "int list \<Rightarrow> error + int" where
  "py_max [] = Inl ValueError"
| "py_max (x # xs) = Inr (fold max xs x)"

text \<open>
  One line of the file, lines 70 to 81. Unpacking \<^verbatim>\<open>fields[:5]\<close> into five names raises
  \<^verbatim>\<open>ValueError\<close> when the line has fewer than five columns.
\<close>

definition skipped :: "string \<Rightarrow> bool" where
  "skipped variant = (rstrip_nl variant = [] \<or> startswith_hash variant)"

definition columns_check :: "args \<Rightarrow> int list \<Rightarrow> string list \<Rightarrow> error + unit" where
  "columns_check a cols_id fields' =
     (if add_columns_given a
      then (case py_max cols_id of
              Inl e \<Rightarrow> Inl e
            | Inr m \<Rightarrow> if m > len fields' then Inl (ErrorColumns (len fields')) else Inr ())
      else Inr ())"

definition compute_row ::
  "args \<Rightarrow> fasta \<Rightarrow> int list \<Rightarrow> int \<Rightarrow> string \<Rightarrow> acc \<Rightarrow> error + acc" where
  "compute_row a chr_dict cols_id num_row variant st =
     (if skipped variant then Inr st
      else (let fields' = split TAB (rstrip_nl variant)
            in case take 5 fields' of
                 [chr, position, ident, ref, alts] \<Rightarrow>
                   (case columns_check a cols_id fields' of
                      Inl e \<Rightarrow> Inl e
                    | Inr _ \<Rightarrow>
                        alts_loop a chr_dict cols_id num_row fields' chr position ref
                          (split CHR '','' alts) st)
               | _ \<Rightarrow> Inl ValueError))"

text \<open>The loop over the lines, line 68; \<open>num_row\<close> counts the lines read so far.\<close>

fun rows_loop ::
  "args \<Rightarrow> fasta \<Rightarrow> int list \<Rightarrow> int \<Rightarrow> string list \<Rightarrow> acc \<Rightarrow> error + acc" where
  "rows_loop a chr_dict cols_id num_row [] st = Inr st"
| "rows_loop a chr_dict cols_id num_row (variant # rest) st =
     (case compute_row a chr_dict cols_id (num_row + 1) variant st of
        Inl e \<Rightarrow> Inl e
      | Inr st' \<Rightarrow> rows_loop a chr_dict cols_id (num_row + 1) rest st')"

text \<open>
  Lines 172 to 175: \<^verbatim>\<open>res_ref[i]\<close> and \<^verbatim>\<open>res_alt[i]\<close> for every index \<open>i\<close> of
  \<^verbatim>\<open>res_alt\<close>; an index outside \<^verbatim>\<open>res_ref\<close> raises \<^verbatim>\<open>IndexError\<close>.
\<close>

fun both_loop :: "string list \<Rightarrow> string list \<Rightarrow> int list \<Rightarrow> string list \<Rightarrow> error + string list" where
  "both_loop rr ra [] res = Inr res"
| "both_loop rr ra (i # idx) res =
     (case py_get rr i of
        Inl e \<Rightarrow> Inl e
      | Inr r \<Rightarrow>
          (case py_get ra i of
             Inl e \<Rightarrow> Inl e
           | Inr x \<Rightarrow> both_loop rr ra idx (res @ [r, x])))"

definition both :: "string list \<Rightarrow> string list \<Rightarrow> error + string list" where
  "both rr ra = both_loop rr ra (map int [0..<length ra]) []"

definition select :: "args \<Rightarrow> acc \<Rightarrow> error + string list" where
  "select a st =
     (if type_arg a = ''alt'' then Inr (res_alt st)
      else if type_arg a = ''ref'' then Inr (res_ref st)
      else both (res_ref st) (res_alt st))"

definition init :: acc where
  "init = \<lparr>res_ref = [], res_alt = [], warnings = []\<rparr>"

text \<open>
  \<^verbatim>\<open>ascii.get_index\<close>, which turns the \<^verbatim>\<open>--add-columns\<close> names into column numbers,
  belongs to another module and is the parameter \<open>get_index\<close>.
\<close>

definition compute ::
  "args \<Rightarrow> fasta \<Rightarrow> (string list option \<Rightarrow> int list) \<Rightarrow> error + (string list \<times> warning list)" where
  "compute a chr_dict get_index =
     (case rows_loop a chr_dict (get_index (add_columns a)) 0 (vcf a) init of
        Inl e \<Rightarrow> Inl e
      | Inr st \<Rightarrow>
          (case select a st of
             Inl e \<Rightarrow> Inl e
           | Inr res \<Rightarrow> Inr (res, warnings st)))"

subsection \<open>\<^verbatim>\<open>write\<close> and \<^verbatim>\<open>main\<close>\<close>

text \<open>
  \<^verbatim>\<open>os.path.basename\<close> and \<^verbatim>\<open>os.path.splitext\<close> on a POSIX path: the part after the last
  slash, and that part without its last extension (leading dots are not an extension).
\<close>

definition basename :: "string \<Rightarrow> string" where
  "basename p = rev (takeWhile (\<lambda>c. c \<noteq> CHR ''/'') (rev p))"

definition splitext_root :: "string \<Rightarrow> string" where
  "splitext_root p =
     (let ext = takeWhile (\<lambda>c. c \<noteq> CHR ''.'') (rev p);
          root = rev (drop (length ext + 1) (rev p))
      in if CHR ''.'' \<in> set p \<and> (\<exists>c \<in> set root. c \<noteq> CHR ''.'') then root else p)"

text \<open>
  What \<^verbatim>\<open>write\<close> leaves behind: the path it opened for writing, the text written to it,
  and the warnings printed. The file is opened (and so emptied) before the results are
  looked at, and the function returns before the warnings when there are no results.
\<close>

record written =
  path :: string
  content :: string
  printed :: "warning list"

definition output_path :: "args \<Rightarrow> string" where
  "output_path a =
     (case output_arg a of
        None \<Rightarrow> splitext_root (basename (vcf_name a)) @ ''-vcf2seq.fa''
      | Some p \<Rightarrow> if p = [] then splitext_root (basename (vcf_name a)) @ ''-vcf2seq.fa'' else p)"

definition write_output :: "args \<Rightarrow> string list \<Rightarrow> warning list \<Rightarrow> written" where
  "write_output a results ws =
     (if results = [] then \<lparr>path = output_path a, content = [], printed = []\<rparr>
      else \<lparr>path = output_path a, content = join [NL] results @ [NL], printed = ws\<rparr>)"

text \<open>\<^verbatim>\<open>main\<close> once the genome index has been opened.\<close>

definition main ::
  "args \<Rightarrow> fasta \<Rightarrow> (string list option \<Rightarrow> int list) \<Rightarrow> error + written" where
  "main a chr_dict get_index =
     (case vcf_ctrl a chr_dict of
        Inl e \<Rightarrow> Inl e
      | Inr _ \<Rightarrow>
          (case compute a chr_dict get_index of
             Inl e \<Rightarrow> Inl e
           | Inr (results, ws) \<Rightarrow> Inr (write_output a results ws)))"

subsection \<open>A genome for concrete runs\<close>

text \<open>
  Modelled from the spec: the sequence provider, which is the library pyfaidx.
  \<open>fetch\<close> returns the bases of the half-open, 0-based interval from \<open>start\<close> to \<open>stop\<close>,
  fewer when the interval runs past an end of the sequence and none when the interval is
  empty.
\<close>

definition fetch :: "string \<Rightarrow> int \<Rightarrow> int \<Rightarrow> string" where
  "fetch s start stop =
     (if stop \<le> start then []
      else take (nat (stop - max 0 start)) (drop (nat (max 0 start)) s))"

definition fasta_of :: "(string \<times> string) list \<Rightarrow> fasta" where
  "fasta_of g chr = map_option fetch (map_of g chr)"

text \<open>
  The provider on a negative bound. The library reads \<^verbatim>\<open>chr_dict[chr][start:stop]\<close> as a
  slice of the sequence, and a negative bound counts from the end of the sequence, as in
  Python's \<^verbatim>\<open>s[start:stop]\<close> for a string \<^verbatim>\<open>s\<close>, which \<open>py_slice\<close> is.
\<close>

definition slice_bound :: "int \<Rightarrow> int \<Rightarrow> int" where
  "slice_bound n i = (if i < 0 then max 0 (n + i) else min n i)"

definition py_slice :: "string \<Rightarrow> int \<Rightarrow> int \<Rightarrow> string" where
  "py_slice s start stop =
     take (nat (slice_bound (len s) stop - slice_bound (len s) start))
       (drop (nat (slice_bound (len s) start)) s)"

definition slices_of :: "(string \<times> string) list \<Rightarrow> fasta" where
  "slices_of g chr = map_option py_slice (map_of g chr)"

subsection \<open>The allele pairs of an input, in input order\<close>

text \<open>
  The allele pairs that the two loops of \<^verbatim>\<open>compute\<close> visit, in the order they visit them:
  line by line, and within a line the comma-separated alternate alleles from left to
  right. Each pair carries its line number and the columns of its line.
\<close>

definition row_pairs :: "string \<Rightarrow> (string list \<times> string) list" where
  "row_pairs variant =
     (if skipped variant then []
      else (let fields' = split TAB (rstrip_nl variant)
            in case take 5 fields' of
                 [chr, position, ident, ref, alts] \<Rightarrow>
                   map (\<lambda>alt. (fields', alt)) (split CHR '','' alts)
               | _ \<Rightarrow> []))"

fun variant_pairs :: "int \<Rightarrow> string list \<Rightarrow> (int \<times> string list \<times> string) list" where
  "variant_pairs num_row [] = []"
| "variant_pairs num_row (variant # rest) =
     map (Pair (num_row + 1)) (row_pairs variant) @ variant_pairs (num_row + 1) rest"

text \<open>The records of one allele pair: the REF and the ALT record when it is accepted.\<close>

definition emitted ::
  "args \<Rightarrow> fasta \<Rightarrow> int list \<Rightarrow> int \<times> string list \<times> string \<Rightarrow> (string \<times> string) option" where
  "emitted a chr_dict cols_id p =
     (case p of (num_row, fields', alt) \<Rightarrow>
        (case fields' of
           chr # position # ident # ref # rest \<Rightarrow>
             (case alt_outcome a chr_dict cols_id num_row fields' chr position ref alt of
                Inl e \<Rightarrow> None
              | Inr out \<Rightarrow> snd out)
         | _ \<Rightarrow> None))"

definition accepted_pairs :: "args \<Rightarrow> fasta \<Rightarrow> int list \<Rightarrow> (string \<times> string) list" where
  "accepted_pairs a chr_dict cols_id =
     List.map_filter (emitted a chr_dict cols_id) (variant_pairs 0 (vcf a))"

subsection \<open>The position column of a line\<close>

text \<open>The second tab-separated column of a line, when the line has one.\<close>

definition position_col :: "string \<Rightarrow> string option" where
  "position_col variant =
     (case split TAB (rstrip_nl variant) of
        chr # pos # rest \<Rightarrow> Some pos
      | _ \<Rightarrow> None)"

subsection \<open>Example inputs\<close>

text \<open>No \<^verbatim>\<open>--add-columns\<close>: \<^verbatim>\<open>cols_id\<close> is empty.\<close>

definition no_columns :: "string list option \<Rightarrow> int list" where
  "no_columns cs = []"

definition tsv_row :: "string list \<Rightarrow> string" where
  "tsv_row cols = join [TAB] cols @ [NL]"

definition chr1 :: string where
  "chr1 = ''ACGTACGTACGTACGTACGT''"

definition example_genome :: fasta where
  "example_genome = fasta_of [(''chr1'', chr1)]"

definition sliced_genome :: fasta where
  "sliced_genome = slices_of [(''chr1'', chr1)]"

definition example_args :: args where
  "example_args =
     \<lparr>vcf = [''#CHROM'' @ [NL],
             tsv_row [''chr1'', ''8'', ''.'', ''T'', ''G,CA''],
             tsv_row [''chr1'', ''+12'', ''.'', ''TA'', ''.'']],
      vcf_name = ''dir/in.vcf'', genome = ''genome.fa'', size_arg = 5, type_arg = ''both'',
      blank = ''.'', add_columns = None, output_arg = None\<rparr>"

definition example_records :: "string list" where
  "example_records =
     [''>chr1_8_T_G_ref '' @ [NL] @ ''CGTAC'',
      ''>chr1_8_T_G_alt '' @ [NL] @ ''CGGAC'',
      ''>chr1_8_T_CA_ref '' @ [NL] @ ''CGTAC'',
      ''>chr1_8_T_CA_alt '' @ [NL] @ ''GCAAC'',
      ''>chr1_+12_TA_._ref '' @ [NL] @ ''GTACG'',
      ''>chr1_+12_TA_._alt '' @ [NL] @ ''CGCGT'']"

text \<open>The three lists after the loops have run over \<open>example_args\<close>.\<close>

definition example_acc :: acc where
  "example_acc =
     \<lparr>res_ref = [''>chr1_8_T_G_ref '' @ [NL] @ ''CGTAC'',
                 ''>chr1_8_T_CA_ref '' @ [NL] @ ''CGTAC'',
                 ''>chr1_+12_TA_._ref '' @ [NL] @ ''GTACG''],
      res_alt = [''>chr1_8_T_G_alt '' @ [NL] @ ''CGGAC'',
                 ''>chr1_8_T_CA_alt '' @ [NL] @ ''GCAAC'',
                 ''>chr1_+12_TA_._alt '' @ [NL] @ ''CGCGT''],
      warnings = []\<rparr>"

text \<open>An input whose two allele pairs are both rejected: an oversized alternate allele, and
  a site too close to the start of the chromosome.\<close>

definition rejected_args :: args where
  "rejected_args =
     example_args\<lparr>vcf := [''#CHROM'' @ [NL],
                           tsv_row [''chr1'', ''8'', ''.'', ''T'', ''GGGGGGG''],
                           tsv_row [''chr1'', ''1'', ''.'', ''A'', ''C'']]\<rparr>"

text \<open>An input whose third line has a position that is not a number.\<close>

definition bad_row_args :: args where
  "bad_row_args =
     example_args\<lparr>vcf := [''#CHROM'' @ [NL],
                           tsv_row [''chr1'', ''8'', ''.'', ''T'', ''G''],
                           tsv_row [''chr1'', ''1x2'', ''.'', ''T'', ''G'']]\<rparr>"

text \<open>An input whose column header line is not commented out.\<close>

definition bare_header_args :: args where
  "bare_header_args =
     example_args\<lparr>vcf := [''#comment'' @ [NL],
                           tsv_row [''CHROM'', ''POS'', ''ID'', ''REF'', ''ALT''],
                           tsv_row [''chr1'', ''8'', ''.'', ''T'', ''G'']]\<rparr>"

subsection \<open>The parity correction as the specification words it\<close>

text \<open>
  The specification's rule for an odd window length, word for word: one when the allele's
  effective length is even, and one more when the allele is the blank marker. It is here
  to be compared with \<open>corr_ref\<close> and \<open>corr_alt\<close>.
\<close>

definition corr_spec_odd :: "string \<Rightarrow> string \<Rightarrow> int" where
  "corr_spec_odd B allele =
     (if even (if allele = B then 0 else len allele) then 1 else 0)
       + (if allele = B then 1 else 0)"

section \<open>Properties\<close>

subsection \<open>Flank lengths\<close>

lemma and_one_zero_iff: "(k::int) AND 1 = 0 \<longleftrightarrow> even k"
  by (simp add: and_one_eq even_iff_mod_2_eq_zero)

text \<open>With a one-character blank marker each correction is the parity of what is left.\<close>

lemma corr_ref_parity:
  assumes "length (blank a) = 1"
  shows "corr_ref a x = (size_arg a - l_ref2 a x) mod 2"
  using assms unfolding corr_ref_def l_ref2_def and_one_zero_iff
  by auto presburger+

lemma corr_alt_parity:
  assumes "length (blank a) = 1"
  shows "corr_alt a x = (size_arg a - l_alt2 a x) mod 2"
  using assms unfolding corr_alt_def l_alt2_def and_one_zero_iff
  by auto presburger+

text \<open>
  C2. The blank marker is one character, as the specification and the help text of
  \<^verbatim>\<open>--blank\<close> have it. The effective length of an allele is 0 when it equals the blank
  marker and its number of characters otherwise; the left flank is the floor of half of
  what the allele leaves of the window, the right flank is that floor plus the correction,
  and when the effective length is below the window length the three lengths add up to
  the window length. This holds for the reference and for the alternate allele.
\<close>

theorem flank_lengths:
  assumes "length (blank a) = 1"
  shows "l_ref2 a ref = (if ref = blank a then 0 else len ref)
       \<and> l_alt2 a alt = (if alt = blank a then 0 else len alt)
       \<and> l_ref1 a ref = (size_arg a - l_ref2 a ref) div 2
       \<and> l_ref3 a ref = (size_arg a - l_ref2 a ref) div 2 + corr_ref a ref
       \<and> l_alt1 a alt = (size_arg a - l_alt2 a alt) div 2
       \<and> l_alt3 a alt = (size_arg a - l_alt2 a alt) div 2 + corr_alt a alt
       \<and> (l_ref2 a ref < size_arg a
            \<longrightarrow> l_ref1 a ref + l_ref2 a ref + l_ref3 a ref = size_arg a)
       \<and> (l_alt2 a alt < size_arg a
            \<longrightarrow> l_alt1 a alt + l_alt2 a alt + l_alt3 a alt = size_arg a)"
proof -
  have r: "l_ref1 a ref + l_ref2 a ref + l_ref3 a ref = size_arg a"
    unfolding l_ref1_def l_ref3_def corr_ref_parity [OF assms] by presburger
  have x: "l_alt1 a alt + l_alt2 a alt + l_alt3 a alt = size_arg a"
    unfolding l_alt1_def l_alt3_def corr_alt_parity [OF assms] by presburger
  show ?thesis
    using r x
    by (simp add: l_ref1_def l_ref3_def l_alt1_def l_alt3_def l_ref2_def l_alt2_def)
qed

theorem flank_lengths_witness:
  "length (blank example_args) = 1
   \<and> l_ref2 example_args ''TA'' < size_arg example_args
   \<and> l_alt2 example_args ''.'' < size_arg example_args
   \<and> l_ref1 example_args ''TA'' = 1 \<and> l_ref2 example_args ''TA'' = 2
   \<and> l_ref3 example_args ''TA'' = 2
   \<and> l_alt1 example_args ''.'' = 2 \<and> l_alt2 example_args ''.'' = 0
   \<and> l_alt3 example_args ''.'' = 3
   \<and> l_ref1 example_args ''TA'' + l_ref2 example_args ''TA'' + l_ref3 example_args ''TA''
       = size_arg example_args
   \<and> l_alt1 example_args ''.'' + l_alt2 example_args ''.'' + l_alt3 example_args ''.''
       = size_arg example_args"
  using flank_lengths [of example_args "''TA''" "''.''"]
  by (simp add: example_args_def l_ref2_def l_alt2_def l_ref1_def l_alt1_def l_ref3_def
        l_alt3_def corr_ref_def corr_alt_def and_one_zero_iff)

text \<open>
  C3, as stated, fails: with window length 5 and blank marker \<^verbatim>\<open>.\<close>, the allele \<^verbatim>\<open>.\<close> gets
  the correction 1 on either side, where the specification's rule gives 2. The source
  tests the parity of the number of characters of the allele, which is 1 for the blank
  marker, not the parity of its effective length 0.
\<close>

theorem corr_blank_counterexample:
  "odd (size_arg example_args) \<and> ''.'' = blank example_args
   \<and> corr_ref example_args ''.'' = 1 \<and> corr_alt example_args ''.'' = 1
   \<and> corr_spec_odd (blank example_args) ''.'' = 2"
  by (simp add: example_args_def corr_ref_def corr_alt_def corr_spec_odd_def and_one_zero_iff)

text \<open>
  C3, amended. For an odd window length the correction is 1 when the number of characters
  of the allele is even, plus 1 when the allele equals the blank marker; an allele equal
  to a one-character blank marker gets the correction 1.
\<close>

theorem corr_odd_size:
  assumes "odd (size_arg a)"
  shows "corr_ref a allele
           = (if even (length allele) then 1 else 0) + (if allele = blank a then 1 else 0)
       \<and> corr_alt a allele
           = (if even (length allele) then 1 else 0) + (if allele = blank a then 1 else 0)
       \<and> (length (blank a) = 1 \<longrightarrow> corr_ref a (blank a) = 1 \<and> corr_alt a (blank a) = 1)"
  using assms by (simp add: corr_ref_def corr_alt_def and_one_zero_iff)

theorem corr_odd_size_witness:
  "odd (size_arg example_args) \<and> length (blank example_args) = 1
   \<and> corr_ref example_args ''TA'' = 1 \<and> corr_alt example_args ''G'' = 0
   \<and> corr_ref example_args (blank example_args) = 1
   \<and> corr_alt example_args (blank example_args) = 1"
  using corr_odd_size [of example_args "''TA''"] corr_odd_size [of example_args "''G''"]
  by (simp add: example_args_def)

subsection \<open>The sequence provider of the concrete runs\<close>

lemma fetch_empty: "stop \<le> start \<Longrightarrow> fetch s start stop = []"
  by (simp add: fetch_def)

lemma fetch_length_le: "start \<le> stop \<Longrightarrow> len (fetch s start stop) \<le> stop - start"
  by (auto simp: fetch_def)

lemma fetch_append:
  assumes "start \<le> mid" and "mid \<le> stop"
  shows "fetch s start stop = fetch s start mid @ fetch s mid stop"
proof (cases "start = mid \<or> mid = stop")
  case True
  then show ?thesis by (auto simp: fetch_def)
next
  case False
  with assms have lt: "start < mid" "mid < stop" by auto
  show ?thesis
  proof (cases "mid \<le> 0")
    case True
    with lt show ?thesis by (simp add: fetch_def max_def)
  next
    case False
    define n where "n = nat (max 0 start)"
    define k where "k = nat (mid - max 0 start)"
    define m where "m = nat (stop - mid)"
    have 1: "nat (stop - max 0 start) = k + m"
      using lt False by (cases "0 \<le> start") (simp_all add: k_def m_def; arith)+
    have 2: "nat (max 0 mid) = n + k"
      using lt False by (cases "0 \<le> start") (simp_all add: k_def n_def; arith)+
    have 3: "nat (stop - max 0 mid) = m"
      using lt False by (simp add: m_def)
    have "take (k + m) (drop n s) = take k (drop n s) @ take m (drop (n + k) s)"
      by (simp add: take_add add.commute)
    then show ?thesis
      using lt unfolding fetch_def 1 2 3 n_def [symmetric] k_def [symmetric] by simp
  qed
qed

subsection \<open>What one allele pair appends\<close>

lemma alt_outcome_accepted:
  assumes "alt_outcome a chr_dict cols_id num_row fields' chr position ref alt
             = Inr (ws, Some (r, x))"
  shows "\<exists>chrom pos ct.
           chr_dict chr = Some chrom \<and> py_int position = Some pos
         \<and> col_txt fields' cols_id = Inr ct
         \<and> len (ref_seq a chrom pos ref) = size_arg a
         \<and> len (alt_seq a chrom pos ref alt) = size_arg a
         \<and> r = ref_record (header chr position ref alt) ct (ref_seq a chrom pos ref)
         \<and> x = alt_record (header chr position ref alt) ct (alt_seq a chrom pos ref alt)"
  using assms unfolding alt_outcome_def
  by (auto simp: Let_def split: sum.splits option.splits if_splits)

lemma compute_alt_appends:
  assumes "compute_alt a chr_dict cols_id num_row fields' chr position ref alt st = Inr st'"
  shows "(res_ref st' = res_ref st \<and> res_alt st' = res_alt st)
       \<or> (\<exists>r x. res_ref st' = res_ref st @ [r] \<and> res_alt st' = res_alt st @ [x])"
  using assms
  by (auto simp: compute_alt_def append_outcome_def
           split: sum.splits option.splits prod.splits)

lemma map_filter_append:
  "List.map_filter f (xs @ ys) = List.map_filter f xs @ List.map_filter f ys"
  by (simp add: List.map_filter_def)

lemma compute_alt_acc:
  assumes "compute_alt a chr_dict cols_id num_row (chr # position # ident # ref # rest)
             chr position ref alt st = Inr st'"
  shows "res_ref st' = res_ref st @ map fst (List.map_filter (emitted a chr_dict cols_id)
                         [(num_row, chr # position # ident # ref # rest, alt)])
       \<and> res_alt st' = res_alt st @ map snd (List.map_filter (emitted a chr_dict cols_id)
                         [(num_row, chr # position # ident # ref # rest, alt)])"
  using assms
  by (auto simp: compute_alt_def append_outcome_def emitted_def List.map_filter_def
           split: sum.splits option.splits prod.splits)

subsection \<open>What the loops append\<close>

lemma alts_loop_acc:
  assumes "alts_loop a chr_dict cols_id num_row fields' chr position ref alts st = Inr st'"
    and "fields' = chr # position # ident # ref # rest"
  shows "res_ref st' = res_ref st @ map fst (List.map_filter (emitted a chr_dict cols_id)
                         (map (\<lambda>alt. (num_row, fields', alt)) alts))
       \<and> res_alt st' = res_alt st @ map snd (List.map_filter (emitted a chr_dict cols_id)
                         (map (\<lambda>alt. (num_row, fields', alt)) alts))"
  using assms
proof (induction alts arbitrary: st)
  case Nil
  then show ?case by (simp add: List.map_filter_def)
next
  case (Cons alt alts)
  from Cons.prems obtain st1 where
    1: "compute_alt a chr_dict cols_id num_row fields' chr position ref alt st = Inr st1"
    and 2: "alts_loop a chr_dict cols_id num_row fields' chr position ref alts st1 = Inr st'"
    by (auto split: sum.splits)
  note s1 = compute_alt_acc [OF 1 [unfolded Cons.prems(2)], folded Cons.prems(2)]
  note s2 = Cons.IH [OF 2 Cons.prems(2)]
  have "List.map_filter (emitted a chr_dict cols_id)
          (map (\<lambda>alt. (num_row, fields', alt)) (alt # alts))
      = List.map_filter (emitted a chr_dict cols_id) [(num_row, fields', alt)]
        @ List.map_filter (emitted a chr_dict cols_id)
            (map (\<lambda>alt. (num_row, fields', alt)) alts)"
    by (simp split: option.splits)
  then show ?case
    using s1 s2 by simp
qed

lemma take5_fields:
  assumes "take 5 fs = [c, p, i, r, al]"
  shows "\<exists>rest. fs = c # p # i # r # rest"
proof -
  have "fs = take 5 fs @ drop 5 fs" by simp
  then show ?thesis unfolding assms by auto
qed

lemma compute_row_acc:
  assumes "compute_row a chr_dict cols_id num_row variant st = Inr st'"
  shows "res_ref st' = res_ref st @ map fst (List.map_filter (emitted a chr_dict cols_id)
                         (map (Pair num_row) (row_pairs variant)))
       \<and> res_alt st' = res_alt st @ map snd (List.map_filter (emitted a chr_dict cols_id)
                         (map (Pair num_row) (row_pairs variant)))"
proof (cases "skipped variant")
  case True
  with assms show ?thesis
    by (simp add: compute_row_def row_pairs_def List.map_filter_def)
next
  case False
  define fs where "fs = split TAB (rstrip_nl variant)"
  from assms False obtain c p i r al where
    t: "take 5 fs = [c, p, i, r, al]"
    and l: "alts_loop a chr_dict cols_id num_row fs c p r (split CHR '','' al) st = Inr st'"
    by (auto simp: compute_row_def Let_def fs_def split: list.splits sum.splits)
  from take5_fields [OF t] obtain rest where f: "fs = c # p # i # r # rest" by blast
  have rp: "map (Pair num_row) (row_pairs variant)
              = map (\<lambda>alt. (num_row, fs, alt)) (split CHR '','' al)"
    using False t by (simp add: row_pairs_def Let_def fs_def [symmetric])
  show ?thesis
    unfolding rp using alts_loop_acc [OF l f] .
qed

lemma rows_loop_acc:
  assumes "rows_loop a chr_dict cols_id num_row lines st = Inr st'"
  shows "res_ref st' = res_ref st @ map fst (List.map_filter (emitted a chr_dict cols_id)
                         (variant_pairs num_row lines))
       \<and> res_alt st' = res_alt st @ map snd (List.map_filter (emitted a chr_dict cols_id)
                         (variant_pairs num_row lines))"
  using assms
proof (induction lines arbitrary: num_row st)
  case Nil
  then show ?case by (simp add: List.map_filter_def)
next
  case (Cons v vs)
  from Cons.prems obtain st1 where
    1: "compute_row a chr_dict cols_id (num_row + 1) v st = Inr st1"
    and 2: "rows_loop a chr_dict cols_id (num_row + 1) vs st1 = Inr st'"
    by (auto split: sum.splits)
  show ?case
    using compute_row_acc [OF 1] Cons.IH [OF 2] by (simp add: map_filter_append)
qed

lemma rows_loop_init:
  assumes "rows_loop a chr_dict cols_id 0 (vcf a) init = Inr st"
  shows "res_ref st = map fst (accepted_pairs a chr_dict cols_id)"
    and "res_alt st = map snd (accepted_pairs a chr_dict cols_id)"
  using rows_loop_acc [OF assms] by (simp_all add: init_def accepted_pairs_def)

subsection \<open>Interleaving\<close>

lemma both_loop_nth:
  assumes "\<forall>i \<in> set idx. i < length rr \<and> i < length ra"
  shows "both_loop rr ra (map int idx) res
           = Inr (res @ concat (map (\<lambda>i. [rr ! i, ra ! i]) idx))"
  using assms by (induction idx arbitrary: res) (simp_all add: py_get_def)

lemma both_defined:
  assumes "length rr = length ra"
  shows "both rr ra = Inr (concat (map (\<lambda>i. [rr ! i, ra ! i]) [0..<length ra]))"
  unfolding both_def using both_loop_nth [of "[0..<length ra]" rr ra "[]"] assms by simp

lemma both_pairs: "both (map fst E) (map snd E) = Inr (concat (map (\<lambda>(r, x). [r, x]) E))"
proof -
  have "map (\<lambda>i. [map fst E ! i, map snd E ! i]) [0..<length E]
      = map (\<lambda>i. (\<lambda>(r, x). [r, x]) (E ! i)) [0..<length E]"
    by (simp add: case_prod_beta)
  also have "\<dots> = map (\<lambda>(r, x). [r, x]) (map ((!) E) [0..<length E])"
    by (simp add: comp_def)
  also have "\<dots> = map (\<lambda>(r, x). [r, x]) E"
    by (simp only: map_nth)
  finally show ?thesis
    using both_defined [of "map fst E" "map snd E"] by simp
qed

lemma concat_pairs_empty: "concat (map (\<lambda>(r, x). [r, x]) E) = [] \<longleftrightarrow> E = []"
  by (cases E) auto

lemma concat_pairs_nth:
  assumes "i < length E"
  shows "concat (map (\<lambda>(r, x). [r, x]) E) ! (2 * i) = fst (E ! i)
       \<and> concat (map (\<lambda>(r, x). [r, x]) E) ! Suc (2 * i) = snd (E ! i)"
  using assms
proof (induction E arbitrary: i)
  case Nil
  then show ?case by simp
next
  case (Cons p E)
  then show ?case by (cases i) (auto simp: case_prod_beta)
qed

lemma compute_records:
  assumes "compute a chr_dict get_index = Inr (res, ws)"
  shows "res = (if type_arg a = ''alt''
                then map snd (accepted_pairs a chr_dict (get_index (add_columns a)))
                else if type_arg a = ''ref''
                then map fst (accepted_pairs a chr_dict (get_index (add_columns a)))
                else concat (map (\<lambda>(r, x). [r, x])
                       (accepted_pairs a chr_dict (get_index (add_columns a)))))"
proof -
  from assms obtain st where
    l: "rows_loop a chr_dict (get_index (add_columns a)) 0 (vcf a) init = Inr st"
    and s: "select a st = Inr res"
    by (auto simp: compute_def split: sum.splits)
  note rr = rows_loop_init [OF l]
  show ?thesis
    using s unfolding select_def rr both_pairs by (auto split: if_splits)
qed

lemma example_compute:
  "compute example_args example_genome no_columns = Inr (example_records, [])"
  by code_simp

subsection \<open>Accepted records\<close>

lemma emitted_accepted:
  assumes "emitted a chr_dict cols_id p = Some (r, x)"
  shows "\<exists>chr position ref alt chrom pos ct.
           chr_dict chr = Some chrom \<and> py_int position = Some pos
         \<and> len (ref_seq a chrom pos ref) = size_arg a
         \<and> len (alt_seq a chrom pos ref alt) = size_arg a
         \<and> r = ref_record (header chr position ref alt) ct (ref_seq a chrom pos ref)
         \<and> x = alt_record (header chr position ref alt) ct (alt_seq a chrom pos ref alt)"
proof -
  obtain n fs alt where p: "p = (n, fs, alt)" by (cases p) auto
  from assms p obtain chr position ref ws where
    "alt_outcome a chr_dict cols_id n fs chr position ref alt = Inr (ws, Some (r, x))"
    by (auto simp: emitted_def split: list.splits sum.splits)
  from alt_outcome_accepted [OF this] show ?thesis by blast
qed

text \<open>
  C1. Every record that \<^verbatim>\<open>compute\<close> returns, whichever output is selected, is the REF
  record or the ALT record of an allele pair whose REF window and whose ALT window both
  have exactly \<open>size_arg a\<close> characters; the record is the header line, a newline, and that
  window.
\<close>

theorem emitted_sequences_have_window_length:
  assumes "compute a chr_dict get_index = Inr (res, ws)" and "rec \<in> set res"
  shows "\<exists>chr position ref alt chrom pos ct.
           chr_dict chr = Some chrom \<and> py_int position = Some pos
         \<and> len (ref_seq a chrom pos ref) = size_arg a
         \<and> len (alt_seq a chrom pos ref alt) = size_arg a
         \<and> (rec = ref_record (header chr position ref alt) ct (ref_seq a chrom pos ref)
              \<or> rec = alt_record (header chr position ref alt) ct
                        (alt_seq a chrom pos ref alt))"
proof -
  define E where "E = accepted_pairs a chr_dict (get_index (add_columns a))"
  from compute_records [OF assms(1)] assms(2)
  obtain r x where rx: "(r, x) \<in> set E" and rec: "rec = r \<or> rec = x"
    unfolding E_def [symmetric] by (fastforce split: if_splits)
  from rx obtain p where "emitted a chr_dict (get_index (add_columns a)) p = Some (r, x)"
    unfolding E_def accepted_pairs_def List.map_filter_def by auto
  from emitted_accepted [OF this] rec show ?thesis by blast
qed

theorem emitted_sequences_have_window_length_witness:
  "compute example_args example_genome no_columns = Inr (example_records, [])
   \<and> ''>chr1_8_T_CA_alt '' @ [NL] @ ''GCAAC'' \<in> set example_records
   \<and> (\<exists>chr position ref alt chrom pos ct.
         example_genome chr = Some chrom \<and> py_int position = Some pos
       \<and> len (ref_seq example_args chrom pos ref) = size_arg example_args
       \<and> len (alt_seq example_args chrom pos ref alt) = size_arg example_args
       \<and> (''>chr1_8_T_CA_alt '' @ [NL] @ ''GCAAC''
            = ref_record (header chr position ref alt) ct (ref_seq example_args chrom pos ref)
          \<or> ''>chr1_8_T_CA_alt '' @ [NL] @ ''GCAAC''
            = alt_record (header chr position ref alt) ct
                (alt_seq example_args chrom pos ref alt)))"
proof -
  have c: "compute example_args example_genome no_columns = Inr (example_records, [])"
    by (rule example_compute)
  have m: "''>chr1_8_T_CA_alt '' @ [NL] @ ''GCAAC'' \<in> set example_records"
    by (simp add: example_records_def)
  from emitted_sequences_have_window_length [OF c m] c m show ?thesis
    by blast
qed

subsection \<open>The alternate window\<close>

text \<open>
  C4. With \<open>pos - 1\<close> the 0-based anchor, the ALT window is the genome from
  \<open>pos - 1 - l_alt1\<close> up to the anchor, then the text of the alternate allele (nothing
  when it is the blank marker), then \<open>l_alt3\<close> genome bases from \<open>pos - 1 + l_ref2\<close> on,
  where the two flank lengths come from the effective length of the alternate allele and
  \<open>l_ref2\<close> is the effective length of the reference allele. The ALT record of an accepted
  pair carries this window.
\<close>

theorem alt_window_layout:
  "alt_seq a chrom pos ref alt
     = chrom (pos - 1 - l_alt1 a alt) (pos - 1)
       @ (if alt = blank a then [] else alt)
       @ chrom (pos - 1 + l_ref2 a ref) (pos - 1 + l_ref2 a ref + l_alt3 a alt)
   \<and> l_alt1 a alt = (size_arg a - (if alt = blank a then 0 else len alt)) div 2
   \<and> l_alt3 a alt
       = (size_arg a - (if alt = blank a then 0 else len alt)) div 2 + corr_alt a alt
   \<and> l_ref2 a ref = (if ref = blank a then 0 else len ref)
   \<and> (alt_outcome a chr_dict cols_id num_row fields' chr position ref alt
         = Inr (ws, Some (r, x))
        \<longrightarrow> (\<exists>chrom pos ct. chr_dict chr = Some chrom \<and> py_int position = Some pos
               \<and> x = alt_record (header chr position ref alt) ct
                       (alt_seq a chrom pos ref alt)))"
proof -
  have "alt_outcome a chr_dict cols_id num_row fields' chr position ref alt
          = Inr (ws, Some (r, x))
        \<Longrightarrow> (\<exists>chrom pos ct. chr_dict chr = Some chrom \<and> py_int position = Some pos
               \<and> x = alt_record (header chr position ref alt) ct
                       (alt_seq a chrom pos ref alt))"
    using alt_outcome_accepted by blast
  then show ?thesis
    by (auto simp: alt_seq_def seq_alt1_def seq_alt3_def alt_text_def ps_alt1_def
          ps_alt3_def pe_alt3_def ps_ref2_def l_alt1_def l_alt3_def l_alt2_def l_ref2_def)
qed

theorem alt_window_layout_witness:
  "alt_outcome example_args example_genome [] 2 [''chr1'', ''8'', ''.'', ''T'', ''G,CA'']
       ''chr1'' ''8'' ''T'' ''CA''
     = Inr ([], Some (''>chr1_8_T_CA_ref '' @ [NL] @ ''CGTAC'',
                      ''>chr1_8_T_CA_alt '' @ [NL] @ ''GCAAC''))
   \<and> alt_seq example_args (fetch chr1) 8 ''T'' ''CA''
       = fetch chr1 6 7 @ ''CA'' @ fetch chr1 8 10
   \<and> alt_seq example_args (fetch chr1) 8 ''T'' ''CA'' = ''GCAAC''
   \<and> (\<exists>chrom pos ct. example_genome ''chr1'' = Some chrom \<and> py_int ''8'' = Some pos
         \<and> ''>chr1_8_T_CA_alt '' @ [NL] @ ''GCAAC''
             = alt_record (header ''chr1'' ''8'' ''T'' ''CA'') ct
                 (alt_seq example_args chrom pos ''T'' ''CA''))"
proof -
  have o: "alt_outcome example_args example_genome [] 2
             [''chr1'', ''8'', ''.'', ''T'', ''G,CA''] ''chr1'' ''8'' ''T'' ''CA''
     = Inr ([], Some (''>chr1_8_T_CA_ref '' @ [NL] @ ''CGTAC'',
                      ''>chr1_8_T_CA_alt '' @ [NL] @ ''GCAAC''))"
    by code_simp
  have l: "l_alt1 example_args ''CA'' = 1" "l_alt3 example_args ''CA'' = 2"
    "l_ref2 example_args ''T'' = 1" "blank example_args = ''.''"
    by (simp_all add: example_args_def l_alt1_def l_alt2_def l_alt3_def l_ref2_def
          corr_alt_def and_one_zero_iff)
  have s: "alt_seq example_args (fetch chr1) 8 ''T'' ''CA'' = ''GCAAC''"
    "fetch chr1 6 7 = ''G''" "fetch chr1 8 10 = ''AC''"
    by code_simp+
  note T = alt_window_layout [where a = example_args and chrom = "fetch chr1" and pos = 8
      and ref = "''T''" and alt = "''CA''" and chr_dict = example_genome and cols_id = "[]"
      and num_row = 2 and fields' = "[''chr1'', ''8'', ''.'', ''T'', ''G,CA'']"
      and chr = "''chr1''" and position = "''8''" and ws = "[]"
      and r = "''>chr1_8_T_CA_ref '' @ [NL] @ ''CGTAC''"
      and x = "''>chr1_8_T_CA_alt '' @ [NL] @ ''GCAAC''"]
  show ?thesis
    using T o s unfolding l by simp
qed

subsection \<open>Oversized alternate alleles\<close>

lemma corr_alt_le_1: "alt \<noteq> blank a \<Longrightarrow> corr_alt a alt \<le> 1"
  by (simp add: corr_alt_def)

text \<open>
  C5, as stated, fails. With window length 5, the line \<^verbatim>\<open>chr1 2 . C GGGGGGGGGGGG\<close> has an
  alternate allele of effective length 12; the flank lengths are -4 and -3, and the right
  flank is asked for from 2 to -1. The bound -1 counts from the end of the sequence, so
  the fetch is not empty but 17 bases long, the ALT window is not the alternate text but
  29 characters long, and the warning gives 29 as its length.
\<close>

theorem oversized_alt_window_counterexample:
  "size_arg example_args < l_alt2 example_args ''GGGGGGGGGGGG''
   \<and> l_alt1 example_args ''GGGGGGGGGGGG'' = - 4
   \<and> l_alt3 example_args ''GGGGGGGGGGGG'' = - 3
   \<and> ps_alt3 example_args 2 ''C'' = 2
   \<and> pe_alt3 example_args 2 ''C'' ''GGGGGGGGGGGG'' = - 1
   \<and> seq_alt3 example_args (py_slice chr1) 2 ''C'' ''GGGGGGGGGGGG'' = ''GTACGTACGTACGTACG''
   \<and> alt_seq example_args (py_slice chr1) 2 ''C'' ''GGGGGGGGGGGG''
       = ''GGGGGGGGGGGG'' @ ''GTACGTACGTACGTACG''
   \<and> alt_seq example_args (py_slice chr1) 2 ''C'' ''GGGGGGGGGGGG'' \<noteq> ''GGGGGGGGGGGG''
   \<and> sliced_genome ''chr1'' = Some (py_slice chr1)
   \<and> alt_outcome example_args sliced_genome [] 2
         [''chr1'', ''2'', ''.'', ''C'', ''GGGGGGGGGGGG''] ''chr1'' ''2'' ''C'' ''GGGGGGGGGGGG''
       = Inr ([LargeAlteration ''chr1'' ''2'' ''C'' ''GGGGGGGGGGGG'', AltTooLong 29 5 2], None)"
proof -
  have 1: "size_arg example_args < l_alt2 example_args ''GGGGGGGGGGGG''"
    "l_alt1 example_args ''GGGGGGGGGGGG'' = - 4" "l_alt3 example_args ''GGGGGGGGGGGG'' = - 3"
    "ps_alt3 example_args 2 ''C'' = 2" "pe_alt3 example_args 2 ''C'' ''GGGGGGGGGGGG'' = - 1"
    by (simp_all add: example_args_def l_alt1_def l_alt2_def l_alt3_def l_ref2_def corr_alt_def
          ps_alt3_def pe_alt3_def ps_ref2_def and_one_zero_iff)
  have 2: "seq_alt3 example_args (py_slice chr1) 2 ''C'' ''GGGGGGGGGGGG''
             = ''GTACGTACGTACGTACG''"
    by code_simp
  have 3: "alt_seq example_args (py_slice chr1) 2 ''C'' ''GGGGGGGGGGGG''
             = ''GGGGGGGGGGGG'' @ ''GTACGTACGTACGTACG''"
    by code_simp
  have 4: "sliced_genome ''chr1'' = Some (py_slice chr1)"
    by (simp add: sliced_genome_def slices_of_def)
  have 5: "alt_outcome example_args sliced_genome [] 2
         [''chr1'', ''2'', ''.'', ''C'', ''GGGGGGGGGGGG''] ''chr1'' ''2'' ''C'' ''GGGGGGGGGGGG''
       = Inr ([LargeAlteration ''chr1'' ''2'' ''C'' ''GGGGGGGGGGGG'', AltTooLong 29 5 2], None)"
    by code_simp
  show ?thesis
    using 1 2 3 4 5 by simp
qed

text \<open>
  C5, amended. When the effective length of the alternate allele exceeds the window
  length and the pair does not abort the run, then for any provider: the left flank
  length is negative, and for a positive window length the right flank length is at most
  0; the ALT window is the left fetch, the whole alternate text and the right fetch, so
  it is longer than the window length, and it is the alternate text itself when both
  fetches are empty; no record is appended; and the warnings appended are the
  large-alteration warning first and the warning with the length of the ALT window and
  the window length last (a REF mismatch warning may stand between them).
\<close>

theorem oversized_alt_dropped:
  assumes big: "size_arg a < l_alt2 a alt"
    and chrom: "chr_dict chr = Some chrom"
    and pos: "py_int position = Some pos"
    and out: "alt_outcome a chr_dict cols_id num_row fields' chr position ref alt
                = Inr (ws, rec)"
  shows "l_alt1 a alt < 0
       \<and> (0 < size_arg a
            \<longrightarrow> alt \<noteq> blank a \<and> size_arg a < len alt \<and> l_alt3 a alt \<le> 0)
       \<and> alt_seq a chrom pos ref alt
           = seq_alt1 a chrom pos alt @ alt_text a alt @ seq_alt3 a chrom pos ref alt
       \<and> (alt \<noteq> blank a \<longrightarrow> alt_text a alt = alt)
       \<and> size_arg a < len (alt_seq a chrom pos ref alt)
       \<and> (alt \<noteq> blank a \<and> seq_alt1 a chrom pos alt = []
              \<and> seq_alt3 a chrom pos ref alt = []
            \<longrightarrow> alt_seq a chrom pos ref alt = alt)
       \<and> rec = None
       \<and> ws = LargeAlteration chr position ref alt
                # mismatch_warning a chrom num_row chr pos ref
                @ [AltTooLong (len (alt_seq a chrom pos ref alt)) (size_arg a) num_row]"
proof -
  have l1: "l_alt1 a alt < 0"
    unfolding l_alt1_def using big by presburger
  have pos_case: "alt \<noteq> blank a \<and> size_arg a < len alt \<and> l_alt3 a alt \<le> 0"
    if K: "0 < size_arg a"
  proof -
    from K big have nb: "alt \<noteq> blank a" and la: "size_arg a < len alt"
      by (auto simp: l_alt2_def split: if_splits)
    have "l_alt3 a alt \<le> 0"
      using l1 corr_alt_le_1 [OF nb] unfolding l_alt1_def l_alt3_def by linarith
    with nb la show ?thesis by simp
  qed
  have long: "size_arg a < len (alt_seq a chrom pos ref alt)"
    using big by (auto simp: alt_seq_def alt_text_def l_alt2_def split: if_splits)
  have lw: "large_warning a chr position ref alt = [LargeAlteration chr position ref alt]"
    unfolding large_warning_def using big by (auto simp: l_alt2_def split: if_splits)
  from out have res: "rec = None \<and> ws = LargeAlteration chr position ref alt
                # mismatch_warning a chrom num_row chr pos ref
                @ [AltTooLong (len (alt_seq a chrom pos ref alt)) (size_arg a) num_row]"
    using long
    by (auto simp: alt_outcome_def chrom pos lw Let_def split: sum.splits if_splits)
  show ?thesis
    using l1 pos_case long res by (simp add: alt_seq_def alt_text_def)
qed

theorem oversized_alt_dropped_witness:
  "size_arg example_args < l_alt2 example_args ''GGGGGGG''
   \<and> 0 < size_arg example_args \<and> ''GGGGGGG'' \<noteq> blank example_args
   \<and> example_genome ''chr1'' = Some (fetch chr1) \<and> py_int ''8'' = Some 8
   \<and> alt_outcome example_args example_genome [] 2 [''chr1'', ''8'', ''.'', ''T'', ''GGGGGGG'']
        ''chr1'' ''8'' ''T'' ''GGGGGGG''
       = Inr ([LargeAlteration ''chr1'' ''8'' ''T'' ''GGGGGGG'', AltTooLong 7 5 2], None)
   \<and> seq_alt1 example_args (fetch chr1) 8 ''GGGGGGG'' = []
   \<and> seq_alt3 example_args (fetch chr1) 8 ''T'' ''GGGGGGG'' = []
   \<and> alt_seq example_args (fetch chr1) 8 ''T'' ''GGGGGGG'' = ''GGGGGGG''
   \<and> l_alt1 example_args ''GGGGGGG'' < 0 \<and> l_alt3 example_args ''GGGGGGG'' \<le> 0
   \<and> size_arg example_args < len (alt_seq example_args (fetch chr1) 8 ''T'' ''GGGGGGG'')"
proof -
  have 1: "size_arg example_args < l_alt2 example_args ''GGGGGGG''"
    "0 < size_arg example_args" "''GGGGGGG'' \<noteq> blank example_args"
    by (simp_all add: example_args_def l_alt2_def)
  have 3: "example_genome ''chr1'' = Some (fetch chr1)"
    by (simp add: example_genome_def fasta_of_def)
  have 4: "py_int ''8'' = Some 8" by code_simp
  have 5: "seq_alt1 example_args (fetch chr1) 8 ''GGGGGGG'' = []"
    "seq_alt3 example_args (fetch chr1) 8 ''T'' ''GGGGGGG'' = []"
    by code_simp+
  have 6: "alt_outcome example_args example_genome [] 2
             [''chr1'', ''8'', ''.'', ''T'', ''GGGGGGG''] ''chr1'' ''8'' ''T'' ''GGGGGGG''
       = Inr ([LargeAlteration ''chr1'' ''8'' ''T'' ''GGGGGGG'', AltTooLong 7 5 2], None)"
    by code_simp
  show ?thesis
    using oversized_alt_dropped [OF 1(1) 3 4 6] 1 3 4 5 6 by simp
qed

subsection \<open>The output file\<close>

text \<open>
  C7. \<^verbatim>\<open>write\<close> writes nothing to the output path, the default one or the one given, when
  the list of results is empty, and whatever it writes comes from a non-empty list of
  results. For a whole run that does not abort, the text written is empty exactly when no
  allele pair of the input was accepted.
\<close>

theorem no_content_without_records:
  "content (write_output a [] ws) = []
   \<and> path (write_output a results ws) = output_path a
   \<and> (content (write_output a results ws) \<noteq> [] \<longrightarrow> results \<noteq> [])
   \<and> (main a chr_dict get_index = Inr w
        \<longrightarrow> (content w = []
              \<longleftrightarrow> accepted_pairs a chr_dict (get_index (add_columns a)) = []))"
proof -
  have "content w = [] \<longleftrightarrow> accepted_pairs a chr_dict (get_index (add_columns a)) = []"
    if m: "main a chr_dict get_index = Inr w"
  proof -
    from m obtain res ws' where c: "compute a chr_dict get_index = Inr (res, ws')"
      and w: "w = write_output a res ws'"
      by (auto simp: main_def split: sum.splits prod.splits)
    have "res = [] \<longleftrightarrow> accepted_pairs a chr_dict (get_index (add_columns a)) = []"
      using compute_records [OF c]
      by (simp del: concat_eq_Nil_conv add: concat_pairs_empty split: if_splits)
    moreover have "content w = [] \<longleftrightarrow> res = []"
      unfolding w by (simp add: write_output_def)
    ultimately show ?thesis by simp
  qed
  then show ?thesis
    by (simp add: write_output_def)
qed

theorem no_content_without_records_witness:
  "main rejected_args example_genome no_columns
     = Inr \<lparr>path = ''in-vcf2seq.fa'', content = [], printed = []\<rparr>
   \<and> accepted_pairs rejected_args example_genome (no_columns (add_columns rejected_args)) = []
   \<and> main example_args example_genome no_columns
       = Inr (write_output example_args example_records [])
   \<and> content (write_output example_args example_records []) \<noteq> []
   \<and> example_records \<noteq> []
   \<and> accepted_pairs example_args example_genome (no_columns (add_columns example_args)) \<noteq> []"
proof -
  have 1: "main rejected_args example_genome no_columns
     = Inr \<lparr>path = ''in-vcf2seq.fa'', content = [], printed = []\<rparr>"
    by code_simp
  have 2: "main example_args example_genome no_columns
       = Inr (write_output example_args example_records [])"
    by (simp add: main_def example_compute) code_simp
  have 3: "content (write_output example_args example_records []) \<noteq> []"
    by (simp add: write_output_def example_records_def)
  note T1 = no_content_without_records [where a = rejected_args and chr_dict = example_genome
      and get_index = no_columns
      and w = "\<lparr>path = ''in-vcf2seq.fa'', content = [], printed = []\<rparr>"]
  note T2 = no_content_without_records [where a = example_args and chr_dict = example_genome
      and get_index = no_columns and w = "write_output example_args example_records []"
      and results = example_records and ws = "[]"]
  show ?thesis
    using T1 T2 1 2 3 by simp
qed

subsection \<open>Order of the output\<close>

text \<open>
  C8. The records that \<^verbatim>\<open>compute\<close> returns are those of the accepted allele pairs, in the
  order of \<open>variant_pairs\<close>: line after line of the input, and within a line the
  alternate alleles as they are listed. The selection \<^verbatim>\<open>alt\<close> gives their ALT records,
  \<^verbatim>\<open>ref\<close> their REF records, and any other selection gives for the \<open>i\<close>-th accepted pair
  its REF record at index \<open>2 * i\<close> and its ALT record right after it.
\<close>

theorem output_order:
  assumes "compute a chr_dict get_index = Inr (res, ws)"
  shows "res = (if type_arg a = ''alt''
                then map snd (accepted_pairs a chr_dict (get_index (add_columns a)))
                else if type_arg a = ''ref''
                then map fst (accepted_pairs a chr_dict (get_index (add_columns a)))
                else concat (map (\<lambda>(r, x). [r, x])
                       (accepted_pairs a chr_dict (get_index (add_columns a)))))
       \<and> (type_arg a \<noteq> ''alt'' \<and> type_arg a \<noteq> ''ref''
            \<longrightarrow> (\<forall>i < length (accepted_pairs a chr_dict (get_index (add_columns a))).
                   res ! (2 * i)
                     = fst (accepted_pairs a chr_dict (get_index (add_columns a)) ! i)
                 \<and> res ! (2 * i + 1)
                     = snd (accepted_pairs a chr_dict (get_index (add_columns a)) ! i)))"
  using compute_records [OF assms] by (auto simp: concat_pairs_nth)

theorem output_order_witness:
  "compute example_args example_genome no_columns = Inr (example_records, [])
   \<and> type_arg example_args \<noteq> ''alt'' \<and> type_arg example_args \<noteq> ''ref''
   \<and> accepted_pairs example_args example_genome (no_columns (add_columns example_args))
       = [(example_records ! 0, example_records ! 1),
          (example_records ! 2, example_records ! 3),
          (example_records ! 4, example_records ! 5)]
   \<and> example_records
       = concat (map (\<lambda>(r, x). [r, x])
           (accepted_pairs example_args example_genome
              (no_columns (add_columns example_args))))"
proof -
  have t: "type_arg example_args \<noteq> ''alt''" "type_arg example_args \<noteq> ''ref''"
    by (simp_all add: example_args_def)
  have e: "accepted_pairs example_args example_genome (no_columns (add_columns example_args))
       = [(example_records ! 0, example_records ! 1),
          (example_records ! 2, example_records ! 3),
          (example_records ! 4, example_records ! 5)]"
    by code_simp
  show ?thesis
    using output_order [OF example_compute] example_compute t e by simp
qed

subsection \<open>The two lists of records\<close>

text \<open>
  C10. One allele pair appends either nothing or exactly one record to each of
  \<^verbatim>\<open>res_ref\<close> and \<^verbatim>\<open>res_alt\<close>. After the loops have run over any input, from the empty
  lists, the two lists have the same length, so every index of \<^verbatim>\<open>res_alt\<close> is an index of
  \<^verbatim>\<open>res_ref\<close> and the interleaving returns its result without an \<^verbatim>\<open>IndexError\<close>.
\<close>

theorem res_ref_res_alt_same_length:
  "(compute_alt a chr_dict cols_id num_row fields' chr position ref alt st0 = Inr st1
      \<longrightarrow> (res_ref st1 = res_ref st0 \<and> res_alt st1 = res_alt st0)
        \<or> (\<exists>r x. res_ref st1 = res_ref st0 @ [r] \<and> res_alt st1 = res_alt st0 @ [x]))
   \<and> (rows_loop a chr_dict cols_id 0 lines init = Inr st
      \<longrightarrow> length (res_ref st) = length (res_alt st)
        \<and> (\<forall>i < length (res_alt st). py_get (res_ref st) (int i) = Inr (res_ref st ! i))
        \<and> both (res_ref st) (res_alt st)
            = Inr (concat (map (\<lambda>i. [res_ref st ! i, res_alt st ! i])
                     [0..<length (res_alt st)])))"
proof (intro conjI impI)
  assume "compute_alt a chr_dict cols_id num_row fields' chr position ref alt st0 = Inr st1"
  then show "(res_ref st1 = res_ref st0 \<and> res_alt st1 = res_alt st0)
        \<or> (\<exists>r x. res_ref st1 = res_ref st0 @ [r] \<and> res_alt st1 = res_alt st0 @ [x])"
    by (rule compute_alt_appends)
next
  assume l: "rows_loop a chr_dict cols_id 0 lines init = Inr st"
  from rows_loop_acc [OF l] show eq: "length (res_ref st) = length (res_alt st)"
    by (simp add: init_def)
  then show "\<forall>i < length (res_alt st). py_get (res_ref st) (int i) = Inr (res_ref st ! i)"
    by (simp add: py_get_def)
  from eq show "both (res_ref st) (res_alt st)
            = Inr (concat (map (\<lambda>i. [res_ref st ! i, res_alt st ! i])
                     [0..<length (res_alt st)]))"
    by (rule both_defined)
qed

theorem res_ref_res_alt_same_length_witness:
  "compute_alt example_args example_genome [] 2 [''chr1'', ''8'', ''.'', ''T'', ''G,CA'']
       ''chr1'' ''8'' ''T'' ''G'' init
     = Inr \<lparr>res_ref = [''>chr1_8_T_G_ref '' @ [NL] @ ''CGTAC''],
            res_alt = [''>chr1_8_T_G_alt '' @ [NL] @ ''CGGAC''], warnings = []\<rparr>
   \<and> rows_loop example_args example_genome [] 0 (vcf example_args) init = Inr example_acc
   \<and> length (res_ref example_acc) = length (res_alt example_acc)
   \<and> both (res_ref example_acc) (res_alt example_acc) = Inr example_records"
proof -
  have 1: "compute_alt example_args example_genome [] 2
             [''chr1'', ''8'', ''.'', ''T'', ''G,CA''] ''chr1'' ''8'' ''T'' ''G'' init
     = Inr \<lparr>res_ref = [''>chr1_8_T_G_ref '' @ [NL] @ ''CGTAC''],
            res_alt = [''>chr1_8_T_G_alt '' @ [NL] @ ''CGGAC''], warnings = []\<rparr>"
    by code_simp
  have 2: "rows_loop example_args example_genome [] 0 (vcf example_args) init
             = Inr example_acc"
    by code_simp
  have 3: "both (res_ref example_acc) (res_alt example_acc) = Inr example_records"
    by code_simp
  note T = res_ref_res_alt_same_length [where a = example_args and chr_dict = example_genome
      and cols_id = "[]" and num_row = 2 and fields' = "[''chr1'', ''8'', ''.'', ''T'', ''G,CA'']"
      and chr = "''chr1''" and position = "''8''" and ref = "''T''" and alt = "''G''"
      and ?st0.0 = init
      and ?st1.0 = "\<lparr>res_ref = [''>chr1_8_T_G_ref '' @ [NL] @ ''CGTAC''],
                      res_alt = [''>chr1_8_T_G_alt '' @ [NL] @ ''CGGAC''], warnings = []\<rparr>"
      and lines = "vcf example_args" and st = example_acc]
  from T 1 2 have "length (res_ref example_acc) = length (res_alt example_acc)"
    by blast
  with 1 2 3 show ?thesis
    by blast
qed

subsection \<open>Substitutions\<close>

lemma substitution_lengths:
  assumes "length ref = 1" and "length alt = 1" and "ref \<noteq> blank a" and "alt \<noteq> blank a"
  shows "l_ref2 a ref = 1" and "l_alt2 a alt = 1"
    and "l_alt1 a alt = l_ref1 a ref" and "l_alt3 a alt = l_ref3 a ref"
    and "l_ref1 a ref + 1 + l_ref3 a ref = size_arg a"
proof -
  show 1: "l_ref2 a ref = 1" and 2: "l_alt2 a alt = 1"
    using assms by (simp_all add: l_ref2_def l_alt2_def)
  have c: "corr_alt a alt = corr_ref a ref" "corr_ref a ref = (size_arg a - 1) mod 2"
    using assms unfolding corr_ref_def corr_alt_def and_one_zero_iff by auto presburger+
  show "l_alt1 a alt = l_ref1 a ref" by (simp add: l_alt1_def l_ref1_def 1 2)
  show "l_alt3 a alt = l_ref3 a ref" by (simp add: l_alt3_def l_ref3_def l_ref1_def 1 2 c)
  show "l_ref1 a ref + 1 + l_ref3 a ref = size_arg a"
    unfolding l_ref3_def l_ref1_def 1 c by presburger
qed

text \<open>
  The two windows of an accepted substitution, for a provider that cuts intervals out of
  one sequence: an interval is the concatenation of its two parts, and is never longer
  than its bounds say.
\<close>

lemma windows_of_substitution:
  assumes sub: "length ref = 1" "length alt = 1" "ref \<noteq> blank a" "alt \<noteq> blank a"
    and app: "\<forall>s m e. s \<le> m \<and> m \<le> e \<longrightarrow> chrom s e = chrom s m @ chrom m e"
    and le: "\<forall>s e. s \<le> e \<longrightarrow> len (chrom s e) \<le> e - s"
    and accr: "len (ref_seq a chrom pos ref) = size_arg a"
    and acca: "len (alt_seq a chrom pos ref alt) = size_arg a"
  shows "ps_alt1 a pos alt = ps_ref1 a pos ref \<and> pe_alt3 a pos ref alt = pe_ref3 a pos ref
       \<and> ref_seq a chrom pos ref
           = chrom (ps_ref1 a pos ref) (ps_ref2 pos) @ chrom (ps_ref2 pos) (ps_ref2 pos + 1)
             @ chrom (ps_ref2 pos + 1) (pe_ref3 a pos ref)
       \<and> alt_seq a chrom pos ref alt
           = chrom (ps_ref1 a pos ref) (ps_ref2 pos) @ alt
             @ chrom (ps_ref2 pos + 1) (pe_ref3 a pos ref)
       \<and> length (chrom (ps_ref2 pos) (ps_ref2 pos + 1)) = 1
       \<and> len (chrom (ps_ref1 a pos ref) (ps_ref2 pos)) = l_ref1 a ref
       \<and> len (chrom (ps_ref2 pos + 1) (pe_ref3 a pos ref)) = l_ref3 a ref
       \<and> 0 \<le> l_ref1 a ref"
proof -
  note L = substitution_lengths [OF sub]
  define p where "p = ps_ref2 pos"
  define s where "s = ps_ref1 a pos ref"
  define e where "e = pe_ref3 a pos ref"
  have s: "s = p - l_ref1 a ref" by (simp add: s_def p_def ps_ref1_def)
  have e: "e = p + 1 + l_ref3 a ref" by (simp add: e_def p_def pe_ref3_def L)
  have ps: "ps_alt1 a pos alt = s" by (simp add: ps_alt1_def s p_def L)
  have p3: "ps_alt3 a pos ref = p + 1" by (simp add: ps_alt3_def p_def L)
  have pe: "pe_alt3 a pos ref alt = e" by (simp add: pe_alt3_def p3 e L)
  have alt: "alt_seq a chrom pos ref alt = chrom s p @ alt @ chrom (p + 1) e"
    using sub(4) by (simp add: alt_seq_def seq_alt1_def seq_alt3_def alt_text_def ps p3 pe p_def)
  from acca alt sub(2) have K: "1 \<le> size_arg a" by simp
  have c0: "0 \<le> corr_ref a ref"
    by (simp add: corr_ref_def)
  have l1: "0 \<le> l_ref1 a ref" unfolding l_ref1_def L using K by simp
  have l3: "0 \<le> l_ref3 a ref" unfolding l_ref3_def using l1 c0 by simp
  have o: "s \<le> p" "p \<le> p + 1" "p + 1 \<le> e" "p \<le> e" using l1 l3 by (simp_all add: s e)
  have "chrom s e = chrom s p @ chrom p e" using app o by blast
  moreover have "chrom p e = chrom p (p + 1) @ chrom (p + 1) e" using app o by blast
  ultimately have ref: "ref_seq a chrom pos ref = chrom s p @ chrom p (p + 1) @ chrom (p + 1) e"
    by (simp add: ref_seq_def s_def e_def)
  have b1: "len (chrom s p) \<le> l_ref1 a ref" using le o(1) s by fastforce
  have b2: "len (chrom p (p + 1)) \<le> 1" using le o(2) by fastforce
  have b3: "len (chrom (p + 1) e) \<le> l_ref3 a ref" using le o(3) e by fastforce
  from accr ref L(5)
  have "len (chrom s p) + len (chrom p (p + 1)) + len (chrom (p + 1) e)
          = l_ref1 a ref + 1 + l_ref3 a ref" by simp
  with b1 b2 b3 have "len (chrom s p) = l_ref1 a ref" "len (chrom p (p + 1)) = 1"
    "len (chrom (p + 1) e) = l_ref3 a ref" by linarith+
  then show ?thesis
    using ps pe ref alt l1 by (simp add: p_def s_def e_def)
qed

lemma differ_in_one:
  assumes "length m = 1" and "length m' = 1"
  shows "\<forall>i. i \<noteq> length l \<longrightarrow> (l @ m @ r) ! i = (l @ m' @ r) ! i"
    and "(l @ m @ r) ! length l = hd m" and "(l @ m' @ r) ! length l = hd m'"
proof -
  from assms obtain c c' where m: "m = [c]" "m' = [c']"
    by (auto simp: length_Suc_conv)
  show "\<forall>i. i \<noteq> length l \<longrightarrow> (l @ m @ r) ! i = (l @ m' @ r) ! i"
    by (auto simp: m nth_append nth_Cons')
  show "(l @ m @ r) ! length l = hd m" "(l @ m' @ r) ! length l = hd m'"
    by (simp_all add: m)
qed

text \<open>
  C9. The provider cuts intervals out of one sequence (see above). For an accepted pair
  whose alleles are both one character and neither the blank marker, the ALT flanks have
  the coordinates of the REF flanks; the REF window is the left flank, the genome base at
  the anchor \<open>pos - 1\<close> and the right flank; the ALT window is the same left flank, the
  alternate base and the same right flank. So the two windows agree at every offset but
  \<open>l_ref1\<close>, where the REF window has the genome base and the ALT window the alternate
  base.
\<close>

theorem substitution_windows:
  assumes sub: "length ref = 1" "length alt = 1" "ref \<noteq> blank a" "alt \<noteq> blank a"
    and chrom: "chr_dict chr = Some chrom"
    and pos: "py_int position = Some pos"
    and app: "\<forall>s m e. s \<le> m \<and> m \<le> e \<longrightarrow> chrom s e = chrom s m @ chrom m e"
    and le: "\<forall>s e. s \<le> e \<longrightarrow> len (chrom s e) \<le> e - s"
    and acc: "alt_outcome a chr_dict cols_id num_row fields' chr position ref alt
                = Inr (ws, Some (r, x))"
  shows "ps_alt1 a pos alt = ps_ref1 a pos ref \<and> pe_alt3 a pos ref alt = pe_ref3 a pos ref
       \<and> (\<exists>ct left right base.
             r = ref_record (header chr position ref alt) ct (left @ [base] @ right)
           \<and> x = alt_record (header chr position ref alt) ct (left @ alt @ right)
           \<and> left = chrom (ps_ref1 a pos ref) (pos - 1)
           \<and> [base] = chrom (pos - 1) pos
           \<and> right = chrom pos (pe_ref3 a pos ref)
           \<and> len left = l_ref1 a ref \<and> len right = l_ref3 a ref)
       \<and> len (ref_seq a chrom pos ref) = size_arg a
       \<and> len (alt_seq a chrom pos ref alt) = size_arg a
       \<and> (\<forall>i. i \<noteq> nat (l_ref1 a ref)
             \<longrightarrow> ref_seq a chrom pos ref ! i = alt_seq a chrom pos ref alt ! i)
       \<and> [ref_seq a chrom pos ref ! nat (l_ref1 a ref)] = chrom (pos - 1) pos
       \<and> [alt_seq a chrom pos ref alt ! nat (l_ref1 a ref)] = alt"
proof -
  from alt_outcome_accepted [OF acc] chrom pos obtain ct where
    accr: "len (ref_seq a chrom pos ref) = size_arg a"
    and acca: "len (alt_seq a chrom pos ref alt) = size_arg a"
    and r: "r = ref_record (header chr position ref alt) ct (ref_seq a chrom pos ref)"
    and x: "x = alt_record (header chr position ref alt) ct (alt_seq a chrom pos ref alt)"
    by auto
  note W = windows_of_substitution [OF sub app le accr acca, unfolded ps_ref2_def, simplified]
  define left where "left = chrom (ps_ref1 a pos ref) (pos - 1)"
  define right where "right = chrom pos (pe_ref3 a pos ref)"
  define mid where "mid = chrom (pos - 1) pos"
  from W have m1: "length mid = 1" by (simp add: mid_def)
  then obtain base where base: "mid = [base]" by (auto simp: length_Suc_conv)
  have rs: "ref_seq a chrom pos ref = left @ mid @ right"
    and as: "alt_seq a chrom pos ref alt = left @ alt @ right"
    and ll: "len left = l_ref1 a ref" and lr: "len right = l_ref3 a ref"
    using W by (simp_all add: left_def right_def mid_def)
  from ll have nl: "nat (l_ref1 a ref) = length left" by simp
  note D = differ_in_one [OF m1 sub(2), of left right]
  have h: "[hd mid] = mid" "[hd alt] = alt"
    using m1 sub(2) by (auto simp: length_Suc_conv)
  have coords: "ps_alt1 a pos alt = ps_ref1 a pos ref"
    "pe_alt3 a pos ref alt = pe_ref3 a pos ref"
    using W by simp_all
  have recs: "\<exists>ct left right base.
             r = ref_record (header chr position ref alt) ct (left @ [base] @ right)
           \<and> x = alt_record (header chr position ref alt) ct (left @ alt @ right)
           \<and> left = chrom (ps_ref1 a pos ref) (pos - 1)
           \<and> [base] = chrom (pos - 1) pos
           \<and> right = chrom pos (pe_ref3 a pos ref)
           \<and> len left = l_ref1 a ref \<and> len right = l_ref3 a ref"
    using r x rs as ll lr base unfolding left_def right_def mid_def by auto
  have same: "\<forall>i. i \<noteq> nat (l_ref1 a ref)
             \<longrightarrow> ref_seq a chrom pos ref ! i = alt_seq a chrom pos ref alt ! i"
    unfolding nl rs as using D(1) by simp
  have centre: "[ref_seq a chrom pos ref ! nat (l_ref1 a ref)] = chrom (pos - 1) pos"
    "[alt_seq a chrom pos ref alt ! nat (l_ref1 a ref)] = alt"
    unfolding nl rs as D(2,3) h by (simp_all add: mid_def)
  show ?thesis
    using coords recs accr acca same centre by blast
qed

theorem substitution_windows_witness:
  "length ''T'' = 1 \<and> length ''G'' = 1 \<and> ''T'' \<noteq> blank example_args
   \<and> ''G'' \<noteq> blank example_args
   \<and> example_genome ''chr1'' = Some (fetch chr1) \<and> py_int ''8'' = Some 8
   \<and> alt_outcome example_args example_genome [] 2 [''chr1'', ''8'', ''.'', ''T'', ''G,CA'']
        ''chr1'' ''8'' ''T'' ''G''
       = Inr ([], Some (''>chr1_8_T_G_ref '' @ [NL] @ ''CGTAC'',
                        ''>chr1_8_T_G_alt '' @ [NL] @ ''CGGAC''))
   \<and> ps_alt1 example_args 8 ''G'' = ps_ref1 example_args 8 ''T''
   \<and> pe_alt3 example_args 8 ''T'' ''G'' = pe_ref3 example_args 8 ''T''
   \<and> nat (l_ref1 example_args ''T'') = 2
   \<and> ref_seq example_args (fetch chr1) 8 ''T'' ! 0
       = alt_seq example_args (fetch chr1) 8 ''T'' ''G'' ! 0
   \<and> ref_seq example_args (fetch chr1) 8 ''T'' ! 1
       = alt_seq example_args (fetch chr1) 8 ''T'' ''G'' ! 1
   \<and> ref_seq example_args (fetch chr1) 8 ''T'' ! 3
       = alt_seq example_args (fetch chr1) 8 ''T'' ''G'' ! 3
   \<and> ref_seq example_args (fetch chr1) 8 ''T'' ! 4
       = alt_seq example_args (fetch chr1) 8 ''T'' ''G'' ! 4
   \<and> [ref_seq example_args (fetch chr1) 8 ''T'' ! nat (l_ref1 example_args ''T'')]
       = fetch chr1 (8 - 1) 8
   \<and> [alt_seq example_args (fetch chr1) 8 ''T'' ''G'' ! nat (l_ref1 example_args ''T'')]
       = ''G''"
proof -
  have b: "''T'' \<noteq> blank example_args" "''G'' \<noteq> blank example_args"
    by (simp_all add: example_args_def)
  have 3: "example_genome ''chr1'' = Some (fetch chr1)"
    by (simp add: example_genome_def fasta_of_def)
  have 4: "py_int ''8'' = Some 8" by code_simp
  have 5: "\<forall>s m e. s \<le> m \<and> m \<le> e \<longrightarrow> fetch chr1 s e = fetch chr1 s m @ fetch chr1 m e"
    using fetch_append by blast
  have 6: "\<forall>s e. s \<le> e \<longrightarrow> len (fetch chr1 s e) \<le> e - s"
    using fetch_length_le by blast
  have 7: "alt_outcome example_args example_genome [] 2
             [''chr1'', ''8'', ''.'', ''T'', ''G,CA''] ''chr1'' ''8'' ''T'' ''G''
       = Inr ([], Some (''>chr1_8_T_G_ref '' @ [NL] @ ''CGTAC'',
                        ''>chr1_8_T_G_alt '' @ [NL] @ ''CGGAC''))"
    by code_simp
  have l: "length ''T'' = 1" "length ''G'' = 1" by simp_all
  have n: "nat (l_ref1 example_args ''T'') = 2"
    by (simp add: example_args_def l_ref1_def l_ref2_def)
  from substitution_windows [OF l b 3 4 5 6 7] b 3 4 7 n show ?thesis
    by simp
qed

subsection \<open>A position that is not a number\<close>

lemma rows_loop_append:
  "rows_loop a chr_dict cols_id num_row (xs @ ys) st
     = (case rows_loop a chr_dict cols_id num_row xs st of
          Inl e \<Rightarrow> Inl e
        | Inr st' \<Rightarrow> rows_loop a chr_dict cols_id (num_row + len xs) ys st')"
proof (induction xs arbitrary: num_row st)
  case Nil
  then show ?case by simp
next
  case (Cons x xs)
  have e: "num_row + len (x # xs) = num_row + 1 + len xs" by simp
  show ?case
    unfolding e
    by (cases "compute_row a chr_dict cols_id (num_row + 1) x st") (simp_all add: Cons.IH)
qed

lemma compute_row_ValueError:
  assumes "\<not> skipped v"
    and "take 5 (split TAB (rstrip_nl v)) = [chr, p, ident, ref, alts]"
    and "columns_check a cols_id (split TAB (rstrip_nl v)) = Inr ()"
    and "split CHR '','' alts = alt # others"
    and "check_bases a num_row ref alt = Inr ()"
    and "py_int p = None"
  shows "compute_row a chr_dict cols_id num_row v st = Inl ValueError"
  using assms
  by (simp add: compute_row_def compute_alt_def alt_outcome_def)

lemma vcf_ctrl_rows_comments:
  "vcf_ctrl_rows chr_dict rows = vcf_ctrl_rows chr_dict (dropWhile startswith_hash rows)"
  by (induction rows) simp_all

text \<open>
  C6, as stated, fails. The third line of \<open>example_args\<close> is neither a comment nor blank
  and its position column is \<^verbatim>\<open>+12\<close>, which is not made of digits, the test that the program
  itself puts on a position. The line is not the first one, so it is never tested;
  \<^verbatim>\<open>int\<close> reads 12, the run does not abort, and the records of the line are written.
\<close>

theorem later_position_counterexample:
  "vcf example_args ! 2 = tsv_row [''chr1'', ''+12'', ''.'', ''TA'', ''.'']
   \<and> \<not> skipped (tsv_row [''chr1'', ''+12'', ''.'', ''TA'', ''.''])
   \<and> position_col (tsv_row [''chr1'', ''+12'', ''.'', ''TA'', ''.'']) = Some ''+12''
   \<and> \<not> isdigit ''+12''
   \<and> main example_args example_genome no_columns
       = Inr (write_output example_args example_records [])
   \<and> ''>chr1_+12_TA_._alt '' @ [NL] @ ''CGCGT'' \<in> set example_records"
proof -
  have 1: "vcf example_args ! 2 = tsv_row [''chr1'', ''+12'', ''.'', ''TA'', ''.'']"
    by (simp add: example_args_def)
  have 2: "\<not> skipped (tsv_row [''chr1'', ''+12'', ''.'', ''TA'', ''.''])" by code_simp
  have 3: "position_col (tsv_row [''chr1'', ''+12'', ''.'', ''TA'', ''.'']) = Some ''+12''"
    by code_simp
  have 4: "\<not> isdigit ''+12''" by code_simp
  have 5: "main example_args example_genome no_columns
       = Inr (write_output example_args example_records [])"
    by (simp add: main_def example_compute) code_simp
  have 6: "''>chr1_+12_TA_._alt '' @ [NL] @ ''CGCGT'' \<in> set example_records"
    by (simp add: example_records_def)
  show ?thesis using 1 2 3 4 5 6 by blast
qed

text \<open>
  C6, amended. When the first line that is not a comment has at least five columns and
  a position that is not made of digits only, the run aborts with the program's message
  about the position column, which names that position. A later line is not tested: its
  position is only read by \<^verbatim>\<open>int\<close>. When \<^verbatim>\<open>int\<close> rejects the position of a line and the run
  gets as far as reading it (\<^verbatim>\<open>vcf_ctrl\<close> passes, the lines before it are processed, and
  the line is not skipped, has five columns and passes the column check and the check
  of the first bases), the run aborts with the \<^verbatim>\<open>ValueError\<close> of \<^verbatim>\<open>int\<close>.
\<close>

theorem position_checks:
  "(dropWhile startswith_hash (vcf a) = first # others
       \<and> split TAB (rstrip_nl first) = chr # pos # ident # ref # alt # extra
       \<and> \<not> isdigit pos
      \<longrightarrow> main a chr_dict get_index = Inl (ErrorVcfFormat pos))
   \<and> (vcf a = before @ v # after
       \<and> vcf_ctrl a chr_dict = Inr ()
       \<and> rows_loop a chr_dict (get_index (add_columns a)) 0 before init = Inr st
       \<and> \<not> skipped v
       \<and> take 5 (split TAB (rstrip_nl v)) = [chr', p, ident', ref', alts]
       \<and> columns_check a (get_index (add_columns a)) (split TAB (rstrip_nl v)) = Inr ()
       \<and> split CHR '','' alts = alt' # alts'
       \<and> check_bases a (len before + 1) ref' alt' = Inr ()
       \<and> py_int p = None
      \<longrightarrow> main a chr_dict get_index = Inl ValueError)"
proof (intro conjI impI)
  assume h: "dropWhile startswith_hash (vcf a) = first # others
       \<and> split TAB (rstrip_nl first) = chr # pos # ident # ref # alt # extra
       \<and> \<not> isdigit pos"
  have f: "\<not> startswith_hash first"
    using h hd_dropWhile [of startswith_hash "vcf a"] by auto
  have "vcf_ctrl a chr_dict = vcf_ctrl_rows chr_dict (first # others)"
    unfolding vcf_ctrl_def using vcf_ctrl_rows_comments [of chr_dict "vcf a"] h by simp
  also have "\<dots> = Inl (ErrorVcfFormat pos)"
    using h f by simp
  finally show "main a chr_dict get_index = Inl (ErrorVcfFormat pos)"
    by (simp add: main_def)
next
  assume h: "vcf a = before @ v # after
       \<and> vcf_ctrl a chr_dict = Inr ()
       \<and> rows_loop a chr_dict (get_index (add_columns a)) 0 before init = Inr st
       \<and> \<not> skipped v
       \<and> take 5 (split TAB (rstrip_nl v)) = [chr', p, ident', ref', alts]
       \<and> columns_check a (get_index (add_columns a)) (split TAB (rstrip_nl v)) = Inr ()
       \<and> split CHR '','' alts = alt' # alts'
       \<and> check_bases a (len before + 1) ref' alt' = Inr ()
       \<and> py_int p = None"
  then have r: "compute_row a chr_dict (get_index (add_columns a)) (len before + 1) v st
                  = Inl ValueError"
    using compute_row_ValueError by blast
  have "rows_loop a chr_dict (get_index (add_columns a)) 0 (vcf a) init = Inl ValueError"
    using h r by (simp add: rows_loop_append)
  then have "compute a chr_dict get_index = Inl ValueError"
    by (simp add: compute_def)
  then show "main a chr_dict get_index = Inl ValueError"
    using h by (simp add: main_def)
qed

theorem position_checks_witness:
  "dropWhile startswith_hash (vcf bare_header_args)
       = tsv_row [''CHROM'', ''POS'', ''ID'', ''REF'', ''ALT'']
         # [tsv_row [''chr1'', ''8'', ''.'', ''T'', ''G'']]
   \<and> split TAB (rstrip_nl (tsv_row [''CHROM'', ''POS'', ''ID'', ''REF'', ''ALT'']))
       = [''CHROM'', ''POS'', ''ID'', ''REF'', ''ALT'']
   \<and> \<not> isdigit ''POS''
   \<and> main bare_header_args example_genome no_columns = Inl (ErrorVcfFormat ''POS'')
   \<and> vcf bad_row_args
       = [''#CHROM'' @ [NL], tsv_row [''chr1'', ''8'', ''.'', ''T'', ''G'']]
         @ tsv_row [''chr1'', ''1x2'', ''.'', ''T'', ''G''] # []
   \<and> vcf_ctrl bad_row_args example_genome = Inr ()
   \<and> rows_loop bad_row_args example_genome (no_columns (add_columns bad_row_args)) 0
         [''#CHROM'' @ [NL], tsv_row [''chr1'', ''8'', ''.'', ''T'', ''G'']] init
       = Inr \<lparr>res_ref = [''>chr1_8_T_G_ref '' @ [NL] @ ''CGTAC''],
              res_alt = [''>chr1_8_T_G_alt '' @ [NL] @ ''CGGAC''], warnings = []\<rparr>
   \<and> \<not> skipped (tsv_row [''chr1'', ''1x2'', ''.'', ''T'', ''G''])
   \<and> take 5 (split TAB (rstrip_nl (tsv_row [''chr1'', ''1x2'', ''.'', ''T'', ''G''])))
       = [''chr1'', ''1x2'', ''.'', ''T'', ''G'']
   \<and> columns_check bad_row_args (no_columns (add_columns bad_row_args))
         (split TAB (rstrip_nl (tsv_row [''chr1'', ''1x2'', ''.'', ''T'', ''G'']))) = Inr ()
   \<and> split CHR '','' ''G'' = [''G'']
   \<and> check_bases bad_row_args 3 ''T'' ''G'' = Inr ()
   \<and> py_int ''1x2'' = None
   \<and> main bad_row_args example_genome no_columns = Inl ValueError"
proof -
  have 1: "dropWhile startswith_hash (vcf bare_header_args)
       = tsv_row [''CHROM'', ''POS'', ''ID'', ''REF'', ''ALT'']
         # [tsv_row [''chr1'', ''8'', ''.'', ''T'', ''G'']]" by code_simp
  have 2: "split TAB (rstrip_nl (tsv_row [''CHROM'', ''POS'', ''ID'', ''REF'', ''ALT'']))
       = [''CHROM'', ''POS'', ''ID'', ''REF'', ''ALT'']" by code_simp
  have 3: "\<not> isdigit ''POS''" by code_simp
  have 4: "vcf bad_row_args
       = [''#CHROM'' @ [NL], tsv_row [''chr1'', ''8'', ''.'', ''T'', ''G'']]
         @ tsv_row [''chr1'', ''1x2'', ''.'', ''T'', ''G''] # []"
    by (simp add: bad_row_args_def)
  have 5: "vcf_ctrl bad_row_args example_genome = Inr ()" by code_simp
  have 6: "rows_loop bad_row_args example_genome (no_columns (add_columns bad_row_args)) 0
         [''#CHROM'' @ [NL], tsv_row [''chr1'', ''8'', ''.'', ''T'', ''G'']] init
       = Inr \<lparr>res_ref = [''>chr1_8_T_G_ref '' @ [NL] @ ''CGTAC''],
              res_alt = [''>chr1_8_T_G_alt '' @ [NL] @ ''CGGAC''], warnings = []\<rparr>"
    by code_simp
  have 7: "\<not> skipped (tsv_row [''chr1'', ''1x2'', ''.'', ''T'', ''G''])" by code_simp
  have 8: "take 5 (split TAB (rstrip_nl (tsv_row [''chr1'', ''1x2'', ''.'', ''T'', ''G''])))
       = [''chr1'', ''1x2'', ''.'', ''T'', ''G'']" by code_simp
  have 9: "columns_check bad_row_args (no_columns (add_columns bad_row_args))
         (split TAB (rstrip_nl (tsv_row [''chr1'', ''1x2'', ''.'', ''T'', ''G'']))) = Inr ()"
    by code_simp
  have 10: "split CHR '','' ''G'' = [''G'']" by code_simp
  have 11: "check_bases bad_row_args 3 ''T'' ''G'' = Inr ()" by code_simp
  have 12: "py_int ''1x2'' = None" by code_simp
  have n: "len [''#CHROM'' @ [NL], tsv_row [''chr1'', ''8'', ''.'', ''T'', ''G'']] + 1 = 3"
    by simp
  note T1 = position_checks [where a = bare_header_args
      and first = "tsv_row [''CHROM'', ''POS'', ''ID'', ''REF'', ''ALT'']"
      and others = "[tsv_row [''chr1'', ''8'', ''.'', ''T'', ''G'']]"
      and chr = "''CHROM''" and pos = "''POS''" and ident = "''ID''" and ref = "''REF''"
      and alt = "''ALT''" and extra = "[]"
      and chr_dict = example_genome and get_index = no_columns, THEN conjunct1]
  note T2 = position_checks [where a = bad_row_args and chr_dict = example_genome
      and get_index = no_columns
      and before = "[''#CHROM'' @ [NL], tsv_row [''chr1'', ''8'', ''.'', ''T'', ''G'']]"
      and v = "tsv_row [''chr1'', ''1x2'', ''.'', ''T'', ''G'']" and after = "[]"
      and st = "\<lparr>res_ref = [''>chr1_8_T_G_ref '' @ [NL] @ ''CGTAC''],
              res_alt = [''>chr1_8_T_G_alt '' @ [NL] @ ''CGGAC''], warnings = []\<rparr>"
      and chr' = "''chr1''" and p = "''1x2''" and ident' = "''.''" and ref' = "''T''"
      and alts = "''G''" and alt' = "''G''" and alts' = "[]", THEN conjunct2, unfolded n]
  have a: "main bare_header_args example_genome no_columns = Inl (ErrorVcfFormat ''POS'')"
    using T1 1 2 3 by blast
  have b: "main bad_row_args example_genome no_columns = Inl ValueError"
    using T2 4 5 6 7 8 9 10 11 12 by blast
  show ?thesis
    using 1 2 3 4 5 6 7 8 9 10 11 12 a b by blast
qed

end
